theory Spec2Isabelle
  imports Complex_Main "HOL-Library.AList" "HOL-Library.Multiset"
begin

section \<open>FrameForge: the video operation engine\<close>

text \<open>
  A shallow embedding of \<^verbatim>\<open>FrameForge.py\<close>.  Python strings are modelled as
  \<^typ>\<open>string\<close>, one \<^typ>\<open>char\<close> per code point (code points below 256).
  External programs (\<^verbatim>\<open>ffmpeg\<close>, \<^verbatim>\<open>ffprobe\<close>) and the file system are
  parameters of the operations that use them; every exception the source can raise
  in the modelled paths is a value of \<open>exn\<close>.
\<close>

subsection \<open>Extension tables\<close>

definition AUDIO_EXTENSIONS :: "string list" where
  "AUDIO_EXTENSIONS =
    [''.mp3'', ''.aac'', ''.m4a'', ''.m4b'', ''.m4p'', ''.wav'', ''.flac'', ''.alac'', ''.ogg'', ''.oga'',
     ''.opus'', ''.wma'', ''.aiff'', ''.aif'', ''.ape'', ''.wv'', ''.amr'', ''.awb'', ''.au'', ''.ra'',
     ''.rm'', ''.mp2'', ''.mp1'', ''.ac3'', ''.dts'', ''.caf'', ''.voc'', ''.tta'', ''.mka'', ''.spx'',
     ''.8svx'', ''.gsm'', ''.ivs'', ''.sln'', ''.vox'', ''.rf64'', ''.msv'', ''.dvf'', ''.act'', ''.dss'']"

definition IMAGE_EXTENSIONS :: "string list" where
  "IMAGE_EXTENSIONS =
    [''.jpg'', ''.jpeg'', ''.jpe'', ''.jfif'', ''.pjpeg'', ''.pjp'',
     ''.png'', ''.gif'', ''.bmp'', ''.webp'', ''.avif'', ''.apng'', ''.tif'', ''.tiff'',
     ''.heif'', ''.heic'', ''.ico'', ''.cur'', ''.xbm'', ''.svg'', ''.svgz'']"

definition VIDEO_EXTENSIONS :: "string list" where
  "VIDEO_EXTENSIONS =
    [''.mp4'', ''.m4v'', ''.m4p'', ''.mov'', ''.qt'', ''.avi'', ''.wmv'', ''.asf'', ''.flv'', ''.f4v'',
     ''.f4p'', ''.f4a'', ''.f4b'', ''.webm'', ''.mkv'', ''.mpg'', ''.mpeg'', ''.mp2'', ''.mpe'', ''.mpv'',
     ''.vob'', ''.dvd'', ''.3gp'', ''.3g2'', ''.svi'', ''.mxf'', ''.ogv'', ''.ogg'', ''.amv'', ''.rm'',
     ''.roq'', ''.nsv'', ''.yuv'', ''.gifv'', ''.mng'', ''.rrc'', ''.mod'', ''.dv'']"

text \<open>The dictionary \<^verbatim>\<open>AUDIO_CODEC_MAP\<close>, read with \<^const>\<open>map_of\<close>.\<close>

definition AUDIO_CODEC_MAP :: "(string \<times> string) list" where
  "AUDIO_CODEC_MAP =
    [(''.mp3'', ''libmp3lame''), (''.flac'', ''flac''), (''.wav'', ''pcm_s16le''),
     (''.aac'', ''aac''), (''.m4a'', ''aac''), (''.alac'', ''alac''),
     (''.ogg'', ''libvorbis''), (''.opus'', ''libopus''), (''.wma'', ''wmav2''),
     (''.amr'', ''libopencore_amrnb''), (''.aiff'', ''pcm_s16be''), (''.au'', ''pcm_mulaw''),
     (''.ac3'', ''ac3''), (''.dts'', ''dca''), (''.wv'', ''wavpack''),
     (''.tta'', ''tta''), (''.mp2'', ''mp2''), (''.caf'', ''pcm_s16le'')]"

subsection \<open>Strings and paths\<close>

text \<open>
  \<^verbatim>\<open>str.lower()\<close> on code points below 256: the ASCII capitals and the Latin-1
  capitals (192..222 except the multiplication sign 215) move up by 32.
\<close>

definition lower_char :: "char \<Rightarrow> char" where
  "lower_char c =
     (let n = (of_char c :: nat)
      in if (65 \<le> n \<and> n \<le> 90) \<or> (192 \<le> n \<and> n \<le> 222 \<and> n \<noteq> 215)
         then char_of (n + 32) else c)"

definition lower :: "string \<Rightarrow> string" where
  "lower s = map lower_char s"

text \<open>\<^verbatim>\<open>str.isspace\<close> on code points below 256, and \<^verbatim>\<open>str.strip()\<close>.\<close>

definition isspace :: "char \<Rightarrow> bool" where
  "isspace c =
     (let n = (of_char c :: nat)
      in (9 \<le> n \<and> n \<le> 13) \<or> (28 \<le> n \<and> n \<le> 32) \<or> n = 133 \<or> n = 160)"

definition strip :: "string \<Rightarrow> string" where
  "strip s = rev (dropWhile isspace (rev (dropWhile isspace s)))"

text \<open>\<^verbatim>\<open>s.split(sep)\<close> for a one-character separator: never an empty list.\<close>

fun split :: "char \<Rightarrow> string \<Rightarrow> string list" where
  "split sep [] = [[]]"
| "split sep (c # cs) =
     (if c = sep then [] # split sep cs
      else (let ws = split sep cs in (c # hd ws) # tl ws))"

text \<open>\<^verbatim>\<open>s.rfind(c)\<close>: the index of the last occurrence, or \<open>-1\<close>.\<close>

definition rfind :: "char \<Rightarrow> string \<Rightarrow> int" where
  "rfind c s =
     (if c \<in> set s
      then int (length s) - 1 - int (length (takeWhile (\<lambda>x. x \<noteq> c) (rev s)))
      else - 1)"

text \<open>
  \<^verbatim>\<open>pathlib.Path(p).name\<close> for a POSIX path: the last component, where empty
  components and \<^verbatim>\<open>.\<close> components are dropped when the path is parsed.
\<close>

definition path_name :: "string \<Rightarrow> string" where
  "path_name p =
     (let parts = filter (\<lambda>x. x \<noteq> [] \<and> x \<noteq> ''.'') (split CHR ''/'' p)
      in if parts = [] then [] else last parts)"

text \<open>
  \<^verbatim>\<open>pathlib.Path(p).suffix\<close>: the name from its last dot on, unless that dot is the
  first or the last character of the name (the rule of CPython up to version 3.12).
\<close>

definition suffix :: "string \<Rightarrow> string" where
  "suffix p =
     (let name = path_name p; i = rfind CHR ''.'' name
      in if 0 < i \<and> i < int (length name) - 1 then drop (nat i) name else [])"

text \<open>\<^verbatim>\<open>os.path.join(a, b)\<close> on POSIX.\<close>

definition path_join :: "string \<Rightarrow> string \<Rightarrow> string" where
  "path_join a b =
     (if b \<noteq> [] \<and> hd b = CHR ''/'' then b
      else if a = [] \<or> last a = CHR ''/'' then a @ b
      else a @ ''/'' @ b)"

text \<open>\<^verbatim>\<open>str(n)\<close> for an integer, and the format \<^verbatim>\<open>{num:02d}\<close>.\<close>

definition digit_char :: "nat \<Rightarrow> char" where
  "digit_char d = ''0123456789'' ! d"

fun str_nat :: "nat \<Rightarrow> string" where
  "str_nat n = (if n < 10 then [digit_char n] else str_nat (n div 10) @ [digit_char (n mod 10)])"

declare str_nat.simps [simp del]

definition str_int :: "int \<Rightarrow> string" where
  "str_int i = (if i < 0 then CHR ''-'' # str_nat (nat (- i)) else str_nat (nat i))"

definition format_02d :: "nat \<Rightarrow> string" where
  "format_02d n = (let s = str_nat n in replicate (2 - length s) CHR ''0'' @ s)"

subsection \<open>Numbers\<close>

text \<open>
  Python's true division \<^verbatim>\<open>a / b\<close> and its floats are modelled by exact reals:
  the quotient of two integers is the number \<open>a / b\<close>, and \<^verbatim>\<open>int(x)\<close> drops the
  fractional part (rounds toward zero).  The double-precision quotient is the exact
  one rounded to 53 bits, so \<^verbatim>\<open>int\<close> and \<^verbatim>\<open>math.ceil\<close> of it agree with the model
  as long as the operands stay below \<open>2^53\<close> in size.
\<close>

definition py_int :: "real \<Rightarrow> int" where
  "py_int x = (if x < 0 then \<lceil>x\<rceil> else \<lfloor>x\<rfloor>)"

subsection \<open>Exceptions, user messages and effects\<close>

datatype exn =
    ZeroDivisionError
  | KeyError string
  | IndexError
  | ValueError
  | OverflowError
  | OSError
  | SameFileError string
  | FileNotFoundError string

text \<open>
  The dialogs of \<^verbatim>\<open>MessageUtils\<close>.  The text of a \<^verbatim>\<open>CalledProcessError\<close> that the
  source appends to a failure message is not modelled; the fixed part of the message is.
\<close>

datatype message =
    invalid_video
  | invalid_audio
  | no_audio_stream
  | operation_failed string
  | operation_success string

text \<open>
  What a handler does to the outside, in order: an encoder run
  (\<^verbatim>\<open>subprocess.run(cmd, check=True)\<close>), a dialog, \<^verbatim>\<open>os.remove\<close>, \<^verbatim>\<open>shutil.copy\<close>.
  A handler returns its events and the exception that ended it, if any.  An encoder is
  given as a function \<open>run\<close> from the command to whether it exits with status zero
  (a non-zero status is the \<^verbatim>\<open>CalledProcessError\<close> of the source); starting the
  program is taken to succeed, as the constructor checks that both tools are installed.
\<close>

datatype event =
    Run "string list"
  | Message message
  | Remove string
  | Copy string string

type_synonym outcome = "event list \<times> exn option"

definition invocations :: "event list \<Rightarrow> string list list" where
  "invocations evs = [c. Run c \<leftarrow> evs]"

definition removals :: "event list \<Rightarrow> string list" where
  "removals evs = [p. Remove p \<leftarrow> evs]"

definition copies :: "event list \<Rightarrow> (string \<times> string) list" where
  "copies evs = [(a, b). Copy a b \<leftarrow> evs]"

subsection \<open>Shared state of the main window\<close>

record main_window =
  images_dir :: string
  input_video :: string
  input_video_2 :: string
  output_video :: string
  output_audio :: string
  frame_rate :: int
  video_duration :: int

definition init_variables :: main_window where
  "init_variables =
     \<lparr>images_dir = [], input_video = [], input_video_2 = [], output_video = [],
      output_audio = [], frame_rate = 0, video_duration = 0\<rparr>"

subsection \<open>Compress10MBPage\<close>

definition target_size_bytes :: int where
  "target_size_bytes = 9 * 1024 * 1024"

definition audio_bitrate :: int where
  "audio_bitrate = 128 * 1024"

text \<open>
  \<^verbatim>\<open>int((target_size_bytes * 8 - audio_bitrate * duration) / duration)\<close>; the division
  raises for a zero duration.
\<close>

definition video_bitrate :: "int \<Rightarrow> exn + int" where
  "video_bitrate duration =
     (if duration = 0 then Inl ZeroDivisionError
      else Inr (py_int (of_int (target_size_bytes * 8 - audio_bitrate * duration) / of_int duration)))"

definition null_file :: "string \<Rightarrow> string" where
  "null_file os_name = (if os_name = ''nt'' then ''NUL'' else ''/dev/nul'')"

definition first_pass_cmd :: "string \<Rightarrow> main_window \<Rightarrow> int \<Rightarrow> string list" where
  "first_pass_cmd os_name w vb =
     [''ffmpeg'', ''-y'', ''-i'', input_video w,
      ''-c:v'', ''libx264'', ''-b:v'', str_int vb,
      ''-pass'', ''1'', ''-an'', ''-f'', ''null'', null_file os_name]"

definition second_pass_cmd :: "main_window \<Rightarrow> int \<Rightarrow> string list" where
  "second_pass_cmd w vb =
     [''ffmpeg'', ''-i'', input_video w,
      ''-c:v'', ''libx264'', ''-b:v'', str_int vb,
      ''-pass'', ''2'', ''-c:a'', ''aac'', ''-b:a'', ''128k'',
      output_video w]"

definition two_pass_logs :: "string list" where
  "two_pass_logs = [''ffmpeg2pass-0.log'', ''ffmpeg2pass-0.log.mbtree'']"

text \<open>
  \<^verbatim>\<open>Compress10MBPage.create_video\<close>.  \<open>run cmd\<close> says whether the encoder exits
  with status zero on \<open>cmd\<close>; \<open>path_exists\<close> is \<^verbatim>\<open>os.path.exists\<close> at the time the
  \<^verbatim>\<open>finally\<close> block runs; \<open>os_name\<close> is \<^verbatim>\<open>os.name\<close>.  A failing first pass returns
  before the \<^verbatim>\<open>try ... finally\<close> of the second pass is entered.
\<close>

definition Compress10MBPage_create_video ::
  "(string list \<Rightarrow> bool) \<Rightarrow> (string \<Rightarrow> bool) \<Rightarrow> string \<Rightarrow> main_window \<Rightarrow> outcome" where
  "Compress10MBPage_create_video run path_exists os_name w =
     (let input_ext = lower (suffix (input_video w));
          output_ext = lower (suffix (output_video w))
      in if input_ext \<notin> set VIDEO_EXTENSIONS \<or> output_ext \<notin> set VIDEO_EXTENSIONS
         then ([Message invalid_video], None)
         else
           (case video_bitrate (video_duration w) of
              Inl e \<Rightarrow> ([], Some e)
            | Inr vb \<Rightarrow>
                (let first = first_pass_cmd os_name w vb
                 in if \<not> run first
                    then ([Run first, Message (operation_failed ''First pass failed'')], None)
                    else
                      (let second = second_pass_cmd w vb
                       in ([Run first, Run second,
                            Message (if run second
                                     then operation_success ''Compression completed successfully.''
                                     else operation_failed ''Second pass failed'')]
                           @ map Remove (filter path_exists two_pass_logs), None)))))"

subsection \<open>TrimPage\<close>

text \<open>The values of the six spin boxes.\<close>

record trim_page =
  start_m :: int
  start_s :: int
  start_f :: int
  end_m :: int
  end_s :: int
  end_f :: int

text \<open>\<^verbatim>\<open>TrimPage.get_start_and_end_trim\<close>: dividing by a zero frame rate raises.\<close>

definition get_start_and_end_trim :: "main_window \<Rightarrow> trim_page \<Rightarrow> exn + (real \<times> real)" where
  "get_start_and_end_trim w t =
     (if frame_rate w = 0 then Inl ZeroDivisionError
      else Inr (of_int (start_m t * 60 + start_s t) + of_int (start_f t) / of_int (frame_rate w),
                of_int (end_m t * 60 + end_s t) + of_int (end_f t) / of_int (frame_rate w)))"

text \<open>
  \<^verbatim>\<open>TrimPage.create_video\<close>.  \<open>has_audio\<close> is the \<^verbatim>\<open>ffprobe\<close> query
  \<^verbatim>\<open>FFmpegGUI.has_audio\<close>; \<open>str_float\<close> is \<^verbatim>\<open>str\<close> on a float, which is not
  modelled.  The encoder's diagnostic text in the failure dialog is left empty.  The two
  offsets are exact numbers here and doubles in the source; for frame values in the
  range of their spin boxes (from 0 to the frame rate minus 1) rounding to doubles keeps
  the order \<open>\<ge>\<close>, so a start that is not before the end here is not before it there.
\<close>

definition TrimPage_create_video ::
  "(string list \<Rightarrow> bool) \<Rightarrow> (string \<Rightarrow> bool) \<Rightarrow> (real \<Rightarrow> string) \<Rightarrow>
   main_window \<Rightarrow> trim_page \<Rightarrow> outcome" where
  "TrimPage_create_video run has_audio str_float w t =
     (let input_ext = lower (suffix (input_video w));
          output_ext = lower (suffix (output_video w))
      in if input_ext \<notin> set VIDEO_EXTENSIONS \<or> output_ext \<notin> set VIDEO_EXTENSIONS
         then ([Message invalid_video], None)
         else
           (case get_start_and_end_trim w t of
              Inl e \<Rightarrow> ([], Some e)
            | Inr (start, end) \<Rightarrow>
                if start \<ge> end
                then ([Message (operation_failed ''Start time must be less than end time.'')], None)
                else
                  (let cmd = [''ffmpeg'', ''-i'', input_video w]
                         @ (if start \<noteq> 0 then [''-ss'', str_float start] else [])
                         @ (if end \<noteq> 0 then [''-to'', str_float end] else [])
                         @ [''-c:v'', ''libx264'']
                         @ (if has_audio (input_video w) then [''-c:a'', ''aac''] else [])
                         @ [output_video w]
                   in ([Run cmd,
                        Message (if run cmd then operation_success ''Trim completed successfully.''
                                 else operation_failed [])], None))))"

subsection \<open>The metadata probe\<close>

text \<open>
  A Python float: a finite number, an infinity (its sign never matters below) or a NaN.
\<close>

datatype pyfloat = Finite real | Infinite | NotANumber

text \<open>Float division: a zero divisor raises whatever the dividend is.\<close>

definition float_div :: "pyfloat \<Rightarrow> pyfloat \<Rightarrow> exn + pyfloat" where
  "float_div a b =
     (case b of
        Finite y \<Rightarrow>
          if y = 0 then Inl ZeroDivisionError
          else Inr (case a of Finite x \<Rightarrow> Finite (x / y) | Infinite \<Rightarrow> Infinite
                    | NotANumber \<Rightarrow> NotANumber)
      | Infinite \<Rightarrow>
          Inr (case a of Finite x \<Rightarrow> Finite 0 | Infinite \<Rightarrow> NotANumber
               | NotANumber \<Rightarrow> NotANumber)
      | NotANumber \<Rightarrow> Inr NotANumber)"

definition math_ceil :: "pyfloat \<Rightarrow> exn + int" where
  "math_ceil x =
     (case x of Finite r \<Rightarrow> Inr \<lceil>r\<rceil> | Infinite \<Rightarrow> Inl OverflowError
      | NotANumber \<Rightarrow> Inl ValueError)"

definition int_of_float :: "pyfloat \<Rightarrow> exn + int" where
  "int_of_float x =
     (case x of Finite r \<Rightarrow> Inr (py_int r) | Infinite \<Rightarrow> Inl OverflowError
      | NotANumber \<Rightarrow> Inl ValueError)"

text \<open>
  The body of the \<^verbatim>\<open>try\<close> block of \<^verbatim>\<open>FFmpegGUI.update_video_frame_rate\<close>: the two
  values it is about to store, or the exception raised on the way.
  \<open>float_of\<close> is Python's \<^verbatim>\<open>float\<close> on a string (\<open>None\<close> for a \<^verbatim>\<open>ValueError\<close>);
  \<open>ffprobe_fps\<close> and \<open>ffprobe_duration\<close> give the decoded output of the two
  \<^verbatim>\<open>ffprobe\<close> queries, or the exception of a run that could not be made or decoded.
\<close>

definition probe_values ::
  "(string \<Rightarrow> pyfloat option) \<Rightarrow> (string \<Rightarrow> exn + string) \<Rightarrow> (string \<Rightarrow> exn + string) \<Rightarrow>
   string \<Rightarrow> exn + (int \<times> int)" where
  "probe_values float_of ffprobe_fps ffprobe_duration filename =
     (case ffprobe_fps filename of
        Inl e \<Rightarrow> Inl e
      | Inr fps_out \<Rightarrow>
          (let fps_string = split CHR ''/'' (strip fps_out)
           in case float_of (fps_string ! 0) of
                None \<Rightarrow> Inl ValueError
              | Some a \<Rightarrow>
                  if length fps_string < 2 then Inl IndexError
                  else
                    (case float_of (fps_string ! 1) of
                       None \<Rightarrow> Inl ValueError
                     | Some b \<Rightarrow>
                         (case float_div a b of
                            Inl e \<Rightarrow> Inl e
                          | Inr q \<Rightarrow>
                              (case math_ceil q of
                                 Inl e \<Rightarrow> Inl e
                               | Inr fps0 \<Rightarrow>
                                   (let fps = (if fps0 \<le> 0 then 1 else fps0)
                                    in case ffprobe_duration filename of
                                         Inl e \<Rightarrow> Inl e
                                       | Inr duration_out \<Rightarrow>
                                           (case float_of (strip duration_out) of
                                              None \<Rightarrow> Inl ValueError
                                            | Some duration \<Rightarrow>
                                                (case int_of_float duration of
                                                   Inl e \<Rightarrow> Inl e
                                                 | Inr d \<Rightarrow> Inr (fps, d)))))))))"

text \<open>
  \<^verbatim>\<open>FFmpegGUI.update_video_frame_rate\<close>: both fields are assigned together at the end
  of the \<^verbatim>\<open>try\<close> block, or the handler prints the exception (the second component).
\<close>

definition update_video_frame_rate ::
  "(string \<Rightarrow> pyfloat option) \<Rightarrow> (string \<Rightarrow> exn + string) \<Rightarrow> (string \<Rightarrow> exn + string) \<Rightarrow>
   string \<Rightarrow> main_window \<Rightarrow> main_window \<times> exn option" where
  "update_video_frame_rate float_of ffprobe_fps ffprobe_duration filename w =
     (case probe_values float_of ffprobe_fps ffprobe_duration filename of
        Inr (fps, d) \<Rightarrow> (w\<lparr>frame_rate := fps, video_duration := d\<rparr>, None)
      | Inl e \<Rightarrow> (w, Some e))"

text \<open>
  Python's \<^verbatim>\<open>float\<close> on the plain decimal numerals that \<^verbatim>\<open>ffprobe\<close> prints: an
  optional sign, digits, and an optional fraction, with white space around.  Python
  accepts more (exponents, underscores, \<^verbatim>\<open>inf\<close>, \<^verbatim>\<open>nan\<close>); this reader is only
  used on concrete outputs.
\<close>

definition isdigit :: "char \<Rightarrow> bool" where
  "isdigit c = (c \<in> set ''0123456789'')"

definition digit_value :: "char \<Rightarrow> int" where
  "digit_value c = int (length (takeWhile (\<lambda>x. x \<noteq> c) ''0123456789''))"

definition int_of_digits :: "string \<Rightarrow> int" where
  "int_of_digits ds = foldl (\<lambda>n c. 10 * n + digit_value c) 0 ds"

definition float_decimal :: "string \<Rightarrow> pyfloat option" where
  "float_decimal s =
     (let t = strip s;
          neg = (t \<noteq> [] \<and> hd t = CHR ''-'');
          u = (if t \<noteq> [] \<and> (hd t = CHR ''-'' \<or> hd t = CHR ''+'') then tl t else t);
          ip = takeWhile isdigit u;
          rest = dropWhile isdigit u;
          fp = (if rest \<noteq> [] \<and> hd rest = CHR ''.'' then tl rest else [])
      in if (rest = [] \<or> hd rest = CHR ''.'') \<and> list_all isdigit fp \<and> (ip \<noteq> [] \<or> fp \<noteq> [])
         then Some (Finite ((if neg then - 1 else 1) *
                (of_int (int_of_digits ip) + of_int (int_of_digits fp) / 10 ^ length fp)))
         else None)"

subsection \<open>ImageToVideoPage\<close>

text \<open>
  The images directory (taken to exist): its entries in listing order, each a file name
  with the file's content.  \<^verbatim>\<open>os.listdir\<close> is \<open>map fst\<close>.  All entries are regular
  files and names are compared as on a case-sensitive file system.  A new file is put
  last in the list; the order in which the file system enumerates the entries later on
  is a parameter of \<open>glob\<close> below.
\<close>

type_synonym 'c directory = "(string \<times> 'c) list"

text \<open>
  \<^verbatim>\<open>shutil.copy(src, dst)\<close> inside one directory: copying a file onto itself raises,
  an existing destination is overwritten, a new one is added to the directory.
\<close>

definition shutil_copy :: "'c directory \<Rightarrow> string \<Rightarrow> string \<Rightarrow> exn + 'c directory" where
  "shutil_copy d src dst =
     (if src = dst then Inl (SameFileError src)
      else case map_of d src of
             None \<Rightarrow> Inl (FileNotFoundError src)
           | Some c \<Rightarrow> Inr (AList.update dst c d))"

text \<open>The name \<^verbatim>\<open>f'img-{num:02d}.jpg'\<close> of a staged copy.\<close>

definition staged_name :: "nat \<Rightarrow> string" where
  "staged_name num = ''img-'' @ format_02d num @ ''.jpg''"

text \<open>
  The loop of \<^verbatim>\<open>ImageToVideoPage.fix_naming\<close> over the listing taken before the
  first copy, with the counter \<open>num\<close> (\<open>img\<close> is the source's \<^verbatim>\<open>image\<close>).
\<close>

fun fix_naming_loop ::
  "string \<Rightarrow> string list \<Rightarrow> nat \<Rightarrow> 'c directory \<Rightarrow> 'c directory \<times> event list \<times> exn option" where
  "fix_naming_loop dir [] num d = (d, [], None)"
| "fix_naming_loop dir (img # images) num d =
     (if lower (suffix img) \<in> set IMAGE_EXTENSIONS
      then
        (let name = staged_name num
         in case shutil_copy d img name of
              Inl e \<Rightarrow> (d, [], Some e)
            | Inr d' \<Rightarrow>
                (case fix_naming_loop dir images (num + 1) d' of
                   (d'', evs, e) \<Rightarrow>
                     (d'', Copy (path_join dir img) (path_join dir name) # evs, e)))
      else fix_naming_loop dir images num d)"

text \<open>
  \<^verbatim>\<open>ImageToVideoPage.fix_naming\<close>.  \<^verbatim>\<open>os.listdir\<close> raises for the empty path, which
  names no directory.
\<close>

definition fix_naming :: "main_window \<Rightarrow> 'c directory \<Rightarrow> 'c directory \<times> event list \<times> exn option" where
  "fix_naming w d =
     (if images_dir w = [] then (d, [], Some (FileNotFoundError []))
      else fix_naming_loop (images_dir w) (map fst d) 1 d)"

text \<open>\<^verbatim>\<open>fnmatch\<close> of a name against a pattern whose only wildcard is \<^verbatim>\<open>?\<close>.\<close>

fun fnmatch :: "string \<Rightarrow> string \<Rightarrow> bool" where
  "fnmatch [] [] = True"
| "fnmatch (c # cs) (p # ps) = ((p = CHR ''?'' \<or> p = c) \<and> fnmatch cs ps)"
| "fnmatch _ _ = False"

text \<open>\<^verbatim>\<open>glob.has_magic\<close>: the path holds one of the characters \<^verbatim>\<open>*\<close>, \<^verbatim>\<open>?\<close>, \<^verbatim>\<open>[\<close>.\<close>

definition has_magic :: "string \<Rightarrow> bool" where
  "has_magic s = list_ex (\<lambda>c. c \<in> set ''*?['') s"

text \<open>
  \<^verbatim>\<open>os.path.split\<close> on POSIX: the path is cut behind its last slash, and the slashes
  at the end of the head are stripped unless the head is made of slashes only.
\<close>

definition os_path_split :: "string \<Rightarrow> string \<times> string" where
  "os_path_split p =
     (let i = nat (rfind CHR ''/'' p + 1);
          head = take i p;
          tail = drop i p
      in (if head \<noteq> [] \<and> head \<noteq> replicate (length head) CHR ''/''
          then rev (dropWhile (\<lambda>c. c = CHR ''/'') (rev head))
          else head,
          tail))"

text \<open>
  \<^verbatim>\<open>glob.glob(pathname)\<close> for a pathname whose last component is a pattern with
  \<^verbatim>\<open>?\<close> wildcards.  The library splits the pathname.  When the directory part is
  empty or has a wildcard character itself, it is read as a pattern too and other
  directories are searched: what is found there is given by \<open>glob_outside\<close>.
  Otherwise the directory part names the modelled directory \<open>d\<close>: its entries are
  enumerated in the order of the file system at that moment, \<open>scandir\<close> applied to
  the names, and each name that matches is joined to the directory part.
\<close>

definition glob ::
  "(string list \<Rightarrow> string list) \<Rightarrow> (string \<Rightarrow> string list) \<Rightarrow> string \<Rightarrow> 'c directory \<Rightarrow>
   string list" where
  "glob scandir glob_outside pathname d =
     (let (dirname, basename) = os_path_split pathname
      in if dirname = [] \<or> has_magic dirname then glob_outside pathname
         else map (path_join dirname)
                (filter (\<lambda>name. fnmatch name basename) (scandir (map fst d))))"

text \<open>
  \<^verbatim>\<open>os.remove(file_path)\<close> seen from the directory whose path is \<open>dirname\<close>: the
  entry with that path, if there is one, is gone.  A failing removal is caught and
  printed by the source and changes nothing.
\<close>

definition os_remove :: "string \<Rightarrow> string \<Rightarrow> 'c directory \<Rightarrow> 'c directory" where
  "os_remove dirname file_path d = filter (\<lambda>e. path_join dirname (fst e) \<noteq> file_path) d"

definition image_cmd :: "main_window \<Rightarrow> string list" where
  "image_cmd w =
     [''ffmpeg'', ''-framerate'', ''1'',
      ''-start_number'', ''1'',
      ''-i'', path_join (images_dir w) ''img-%02d.jpg'',
      ''-vf'', ''scale=1920:1080:force_original_aspect_ratio=decrease:eval=frame,pad=1920:1080:-1:-1:eval=frame'',
      ''-c:v'', ''libx264'', ''-pix_fmt'', ''yuv420p'', ''-r'', ''24'', output_video w]"

text \<open>
  \<^verbatim>\<open>ImageToVideoPage.create_video\<close>: the directory afterwards and the outcome.  The
  deletion loop is inside the \<^verbatim>\<open>try\<close> block, after the encoder run, so a failing run
  jumps over it.  What the encoder itself writes is not part of the directory model.
\<close>

definition ImageToVideoPage_create_video ::
  "(string list \<Rightarrow> bool) \<Rightarrow> (string list \<Rightarrow> string list) \<Rightarrow> (string \<Rightarrow> string list) \<Rightarrow>
   main_window \<Rightarrow> 'c directory \<Rightarrow> 'c directory \<times> outcome" where
  "ImageToVideoPage_create_video run scandir glob_outside w d =
     (let output_ext = lower (suffix (output_video w))
      in if output_ext \<notin> set VIDEO_EXTENSIONS
         then (d, [Message invalid_video], None)
         else
           (case fix_naming w d of
              (d1, evs, Some e) \<Rightarrow> (d1, evs, Some e)
            | (d1, evs, None) \<Rightarrow>
                (let cmd = image_cmd w
                 in if run cmd
                    then
                      (let pattern = path_join (images_dir w) ''img-??.jpg'';
                           files_to_delete = glob scandir glob_outside pattern d1
                       in (fold (os_remove (fst (os_path_split pattern))) files_to_delete d1,
                           evs @ [Run cmd,
                                  Message (operation_success
                                    ''Image to video conversion completed successfully.'')]
                               @ map Remove files_to_delete,
                           None))
                    else (d1, evs @ [Run cmd, Message (operation_failed [])], None))))"

subsection \<open>ExtractSoundPage\<close>

text \<open>
  \<^verbatim>\<open>ExtractSoundPage.extract_audio\<close>.  The output extension is checked against
  \<^verbatim>\<open>AUDIO_EXTENSIONS\<close>; the codec is then read from \<^verbatim>\<open>AUDIO_CODEC_MAP\<close> by
  subscription, which raises \<^verbatim>\<open>KeyError\<close> for a missing key.
\<close>

definition extract_audio ::
  "(string list \<Rightarrow> bool) \<Rightarrow> (string \<Rightarrow> bool) \<Rightarrow> main_window \<Rightarrow> outcome" where
  "extract_audio run has_audio w =
     (let input_ext = lower (suffix (input_video w));
          output_ext = lower (suffix (output_audio w))
      in if input_ext \<notin> set VIDEO_EXTENSIONS \<or> \<not> has_audio (input_video w)
            \<or> output_ext \<notin> set AUDIO_EXTENSIONS
         then
           (if input_ext \<notin> set VIDEO_EXTENSIONS then ([Message invalid_video], None)
            else if output_ext \<notin> set AUDIO_EXTENSIONS then ([Message invalid_audio], None)
            else ([Message no_audio_stream], None))
         else
           (case map_of AUDIO_CODEC_MAP output_ext of
              None \<Rightarrow> ([], Some (KeyError output_ext))
            | Some codec \<Rightarrow>
                (let cmd = [''ffmpeg'',
                            ''-i'', input_video w,
                            ''-map'', ''0:a'',
                            ''-q:a'', ''0'',
                            ''-acodec'', codec,
                            output_audio w]
                 in ([Run cmd,
                      Message (if run cmd
                               then operation_success ''Audio extraction completed successfully.''
                               else operation_failed [])], None))))"

section \<open>Properties\<close>

subsection \<open>Evaluation of the string functions\<close>

lemma str_nat_numeral:
  "str_nat (numeral k) =
     (if (numeral k :: nat) < 10 then [digit_char (numeral k)]
      else str_nat (numeral k div 10) @ [digit_char (numeral k mod 10)])"
  by (rule str_nat.simps)

lemma str_nat_0: "str_nat 0 = ''0''"
  by (subst str_nat.simps) (simp add: digit_char_def)

lemma str_nat_1: "str_nat (Suc 0) = ''1''"
  by (subst str_nat.simps) (simp add: digit_char_def)

lemma split_not_Nil: "split sep s \<noteq> []"
  by (induction s) (simp_all add: Let_def)

lemmas str_eval = str_int_def str_nat_numeral str_nat_0 str_nat_1 digit_char_def format_02d_def

subsection \<open>Overlap of the extension tables\<close>

text \<open>
  Claim C10.  The video and the audio extension lists share exactly the four
  extensions \<^verbatim>\<open>.ogg\<close>, \<^verbatim>\<open>.mp2\<close>, \<^verbatim>\<open>.m4p\<close> and \<^verbatim>\<open>.rm\<close>.  A path with such a
  suffix, in any letter case, passes the video-input test and the audio-output test at
  once: audio extraction with \<^verbatim>\<open>clip.OGG\<close> as both its input and its output gets
  past both tests and runs the encoder.
\<close>

theorem extension_tables_overlap:
  "set VIDEO_EXTENSIONS \<inter> set AUDIO_EXTENSIONS = {''.ogg'', ''.mp2'', ''.m4p'', ''.rm''}
   \<and> lower (suffix ''clip.OGG'') \<in> set VIDEO_EXTENSIONS
   \<and> lower (suffix ''clip.OGG'') \<in> set AUDIO_EXTENSIONS
   \<and> invocations (fst (extract_audio run (\<lambda>p. True)
         (init_variables\<lparr>input_video := ''clip.OGG'', output_audio := ''clip.OGG''\<rparr>)))
       = [[''ffmpeg'', ''-i'', ''clip.OGG'', ''-map'', ''0:a'', ''-q:a'', ''0'',
           ''-acodec'', ''libvorbis'', ''clip.OGG'']]"
  by code_simp

theorem extension_tables_overlap_witness:
  "set VIDEO_EXTENSIONS \<inter> set AUDIO_EXTENSIONS = {''.ogg'', ''.mp2'', ''.m4p'', ''.rm''}
   \<and> lower (suffix ''clip.OGG'') \<in> set VIDEO_EXTENSIONS
   \<and> lower (suffix ''clip.OGG'') \<in> set AUDIO_EXTENSIONS
   \<and> invocations (fst (extract_audio (\<lambda>cmd. False) (\<lambda>p. True)
         (init_variables\<lparr>input_video := ''clip.OGG'', output_audio := ''clip.OGG''\<rparr>)))
       = [[''ffmpeg'', ''-i'', ''clip.OGG'', ''-map'', ''0:a'', ''-q:a'', ''0'',
           ''-acodec'', ''libvorbis'', ''clip.OGG'']]"
  by (rule extension_tables_overlap)

subsection \<open>Compression with a zero duration\<close>

text \<open>
  Claim C1 asks for a validation error whenever the duration is not positive.  The
  code has no such check: with valid extensions and a duration of zero (the value the
  main window starts with, and keeps after a failed probe) the bitrate formula divides
  by zero, and the handler ends with an unhandled \<^verbatim>\<open>ZeroDivisionError\<close>; no dialog
  is shown and no encoder is run.
\<close>

theorem compress_zero_duration_raises:
  assumes "lower (suffix (input_video w)) \<in> set VIDEO_EXTENSIONS"
    and "lower (suffix (output_video w)) \<in> set VIDEO_EXTENSIONS"
    and "video_duration w = 0"
  shows "Compress10MBPage_create_video run path_exists os_name w = ([], Some ZeroDivisionError)"
  using assms by (simp add: Compress10MBPage_create_video_def video_bitrate_def)

theorem compress_zero_duration_raises_witness:
  "Compress10MBPage_create_video (\<lambda>cmd. True) (\<lambda>p. True) ''posix''
     (init_variables\<lparr>input_video := ''in.mp4'', output_video := ''out.mp4''\<rparr>)
   = ([], Some ZeroDivisionError)"
proof -
  let ?w = "init_variables\<lparr>input_video := ''in.mp4'', output_video := ''out.mp4''\<rparr>"
  have 1: "lower (suffix (input_video ?w)) \<in> set VIDEO_EXTENSIONS" by code_simp
  have 2: "lower (suffix (output_video ?w)) \<in> set VIDEO_EXTENSIONS" by code_simp
  have 3: "video_duration ?w = 0" by (simp add: init_variables_def)
  show ?thesis by (rule compress_zero_duration_raises [OF 1 2 3])
qed

text \<open>
  A negative duration is not rejected either: the formula gives a negative bitrate,
  which is passed on to the encoder.
\<close>

lemma compress_negative_duration:
  "video_bitrate (- 1) = Inr (- 75628544)
   \<and> first_pass_cmd os_name w (- 75628544) ! 7 = ''-75628544''"
  by (simp add: video_bitrate_def target_size_bytes_def audio_bitrate_def py_int_def
      first_pass_cmd_def str_eval)

subsection \<open>Audio extraction to an extension without a codec\<close>

text \<open>
  Claim C2 asks for a validation error whenever the output extension is not a key of
  the codec table.  The code tests the output extension against
  \<^verbatim>\<open>AUDIO_EXTENSIONS\<close> only, so an extension of that list with no entry in
  \<^verbatim>\<open>AUDIO_CODEC_MAP\<close> (such as \<^verbatim>\<open>.m4b\<close>) gets past the test, and building the
  command raises an unhandled \<^verbatim>\<open>KeyError\<close>; no dialog is shown and no encoder is run.
\<close>

theorem extract_audio_unmapped_raises:
  assumes "lower (suffix (input_video w)) \<in> set VIDEO_EXTENSIONS"
    and "has_audio (input_video w)"
    and "lower (suffix (output_audio w)) \<in> set AUDIO_EXTENSIONS"
    and "map_of AUDIO_CODEC_MAP (lower (suffix (output_audio w))) = None"
  shows "extract_audio run has_audio w = ([], Some (KeyError (lower (suffix (output_audio w)))))"
  using assms by (simp add: extract_audio_def)

theorem extract_audio_unmapped_raises_witness:
  "extract_audio (\<lambda>cmd. True) (\<lambda>p. True)
     (init_variables\<lparr>input_video := ''clip.mp4'', output_audio := ''track.m4b''\<rparr>)
   = ([], Some (KeyError ''.m4b''))"
proof -
  let ?w = "init_variables\<lparr>input_video := ''clip.mp4'', output_audio := ''track.m4b''\<rparr>"
  have 1: "lower (suffix (input_video ?w)) \<in> set VIDEO_EXTENSIONS" by code_simp
  have 3: "lower (suffix (output_audio ?w)) \<in> set AUDIO_EXTENSIONS" by code_simp
  have 4: "map_of AUDIO_CODEC_MAP (lower (suffix (output_audio ?w))) = None" by code_simp
  have 5: "lower (suffix (output_audio ?w)) = ''.m4b''" by code_simp
  show ?thesis
    using extract_audio_unmapped_raises [of ?w "\<lambda>p. True" "\<lambda>cmd. True", OF 1 _ 3 4] 5 by simp
qed

subsection \<open>The two passes of the compression\<close>

lemma video_bitrate_nonzero:
  "d \<noteq> 0 \<Longrightarrow>
   video_bitrate d = Inr (py_int (of_int (9 * 1024 * 1024 * 8 - 128 * 1024 * d) / of_int d))"
  by (simp add: video_bitrate_def target_size_bytes_def audio_bitrate_def)

lemma compress_events:
  assumes "lower (suffix (input_video w)) \<in> set VIDEO_EXTENSIONS"
    and "lower (suffix (output_video w)) \<in> set VIDEO_EXTENSIONS"
    and "video_bitrate (video_duration w) = Inr vb"
  shows "Compress10MBPage_create_video run path_exists os_name w =
     (if run (first_pass_cmd os_name w vb)
      then ([Run (first_pass_cmd os_name w vb), Run (second_pass_cmd w vb),
             Message (if run (second_pass_cmd w vb)
                      then operation_success ''Compression completed successfully.''
                      else operation_failed ''Second pass failed'')]
            @ map Remove (filter path_exists two_pass_logs), None)
      else ([Run (first_pass_cmd os_name w vb),
             Message (operation_failed ''First pass failed'')], None))"
  using assms by (simp add: Compress10MBPage_create_video_def Let_def)

lemma invocations_simps:
  "invocations [] = []"
  "invocations (Run c # evs) = c # invocations evs"
  "invocations (Message m # evs) = invocations evs"
  "invocations (Remove p # evs) = invocations evs"
  "invocations (Copy a b # evs) = invocations evs"
  "invocations (xs @ ys) = invocations xs @ invocations ys"
  by (simp_all add: invocations_def)

lemma removals_simps:
  "removals [] = []"
  "removals (Run c # evs) = removals evs"
  "removals (Message m # evs) = removals evs"
  "removals (Remove p # evs) = p # removals evs"
  "removals (Copy a b # evs) = removals evs"
  "removals (xs @ ys) = removals xs @ removals ys"
  by (simp_all add: removals_def)

lemma invocations_map_Remove: "invocations (map Remove ps) = []"
  by (induction ps) (simp_all add: invocations_simps)

lemma removals_map_Remove: "removals (map Remove ps) = ps"
  by (induction ps) (simp_all add: removals_simps)

text \<open>
  Claim C6.  For a compression request with video extensions on both paths and a
  positive duration, the handler builds two encoder commands and runs them in this
  order, the second only when the first exits with status zero.  Pass 1 encodes the
  video at the computed bitrate with \<^verbatim>\<open>-pass 1\<close>, without audio (\<^verbatim>\<open>-an\<close>), into the
  null muxer (\<^verbatim>\<open>-f null\<close>); pass 2 encodes the video at the same bitrate with
  \<^verbatim>\<open>-pass 2\<close> and the audio as AAC at \<^verbatim>\<open>128k\<close>, into the output path.
\<close>

theorem compress_two_passes:
  assumes "lower (suffix (input_video w)) \<in> set VIDEO_EXTENSIONS"
    and "lower (suffix (output_video w)) \<in> set VIDEO_EXTENSIONS"
    and "0 < video_duration w"
  shows "let vb = py_int (of_int (9 * 1024 * 1024 * 8 - 128 * 1024 * video_duration w)
                           / of_int (video_duration w));
             pass1 = [''ffmpeg'', ''-y'', ''-i'', input_video w,
                      ''-c:v'', ''libx264'', ''-b:v'', str_int vb,
                      ''-pass'', ''1'', ''-an'', ''-f'', ''null'',
                      (if os_name = ''nt'' then ''NUL'' else ''/dev/nul'')];
             pass2 = [''ffmpeg'', ''-i'', input_video w,
                      ''-c:v'', ''libx264'', ''-b:v'', str_int vb,
                      ''-pass'', ''2'', ''-c:a'', ''aac'', ''-b:a'', ''128k'',
                      output_video w];
             result = Compress10MBPage_create_video run path_exists os_name w
         in invocations (fst result) = (if run pass1 then [pass1, pass2] else [pass1])
            \<and> snd result = None"
proof -
  have d: "video_duration w \<noteq> 0" using assms(3) by simp
  show ?thesis
    unfolding Let_def compress_events [OF assms(1,2) video_bitrate_nonzero [OF d]]
    by (simp add: invocations_simps invocations_map_Remove first_pass_cmd_def
        second_pass_cmd_def null_file_def)
qed

theorem compress_two_passes_witness:
  "invocations (fst (Compress10MBPage_create_video (\<lambda>cmd. True) (\<lambda>p. True) ''posix''
      (init_variables\<lparr>input_video := ''in.mp4'', output_video := ''out.mp4'',
                       video_duration := 120\<rparr>)))
   = [[''ffmpeg'', ''-y'', ''-i'', ''in.mp4'', ''-c:v'', ''libx264'', ''-b:v'', ''498073'',
       ''-pass'', ''1'', ''-an'', ''-f'', ''null'', ''/dev/nul''],
      [''ffmpeg'', ''-i'', ''in.mp4'', ''-c:v'', ''libx264'', ''-b:v'', ''498073'',
       ''-pass'', ''2'', ''-c:a'', ''aac'', ''-b:a'', ''128k'', ''out.mp4'']]"
proof -
  let ?w = "init_variables\<lparr>input_video := ''in.mp4'', output_video := ''out.mp4'',
                             video_duration := 120\<rparr>"
  have 1: "lower (suffix (input_video ?w)) \<in> set VIDEO_EXTENSIONS" by code_simp
  have 2: "lower (suffix (output_video ?w)) \<in> set VIDEO_EXTENSIONS" by code_simp
  have 3: "0 < video_duration ?w" by (simp add: init_variables_def)
  show ?thesis
    using compress_two_passes [OF 1 2 3, of "''posix''" "\<lambda>cmd. True" "\<lambda>p. True"]
    by (simp add: Let_def init_variables_def py_int_def str_eval)
qed

subsection \<open>The sixty-second scenario\<close>

text \<open>
  Claim C4 as stated: for a duration of 60 seconds the bitrate is
  \<open>(9*1024*1024*8 - 128000*60)/60\<close>, given as 1,258,831, up to rounding.  The code
  budgets the audio at \<open>128 * 1024 = 131072\<close> bits per second and computes 1,127,219,
  which is more than one away from 1,258,831 and from the value of the stated formula.
\<close>

theorem compress_sixty_seconds_counterexample:
  "video_bitrate 60 = Inr 1127219
   \<and> \<not> \<bar>1127219 - 1258831\<bar> \<le> (1 :: int)
   \<and> \<not> \<bar>1127219 - py_int ((9 * 1024 * 1024 * 8 - 128000 * 60) / 60)\<bar> \<le> 1"
  by (simp add: video_bitrate_def target_size_bytes_def audio_bitrate_def py_int_def)

text \<open>
  Claim C4, amended.  For a duration of 60 seconds the computed video bitrate is
  \<open>int((9*1024*1024*8 - 128*1024*60)/60) = 1127219\<close>; the handler issues the two
  encoder commands at this bitrate (the second when the first succeeds), and when the
  second pass has been attempted it removes those of the two statistics files
  \<^verbatim>\<open>ffmpeg2pass-0.log\<close> and \<^verbatim>\<open>ffmpeg2pass-0.log.mbtree\<close> that exist.
\<close>

theorem compress_sixty_seconds:
  assumes "lower (suffix (input_video w)) \<in> set VIDEO_EXTENSIONS"
    and "lower (suffix (output_video w)) \<in> set VIDEO_EXTENSIONS"
    and "video_duration w = 60"
  shows "let pass1 = [''ffmpeg'', ''-y'', ''-i'', input_video w,
                      ''-c:v'', ''libx264'', ''-b:v'', ''1127219'',
                      ''-pass'', ''1'', ''-an'', ''-f'', ''null'', null_file os_name];
             pass2 = [''ffmpeg'', ''-i'', input_video w,
                      ''-c:v'', ''libx264'', ''-b:v'', ''1127219'',
                      ''-pass'', ''2'', ''-c:a'', ''aac'', ''-b:a'', ''128k'',
                      output_video w];
             result = Compress10MBPage_create_video run path_exists os_name w
         in video_bitrate (video_duration w) = Inr 1127219
            \<and> invocations (fst result) = (if run pass1 then [pass1, pass2] else [pass1])
            \<and> removals (fst result) =
                (if run pass1
                 then filter path_exists [''ffmpeg2pass-0.log'', ''ffmpeg2pass-0.log.mbtree'']
                 else [])"
proof -
  have vb: "video_bitrate (video_duration w) = Inr 1127219"
    by (simp add: assms(3) video_bitrate_def target_size_bytes_def audio_bitrate_def py_int_def)
  show ?thesis
    unfolding Let_def compress_events [OF assms(1,2) vb]
    by (simp add: vb invocations_simps invocations_map_Remove removals_simps
        removals_map_Remove first_pass_cmd_def second_pass_cmd_def two_pass_logs_def str_eval)
qed

theorem compress_sixty_seconds_witness:
  "video_bitrate 60 = Inr 1127219
   \<and> invocations (fst (Compress10MBPage_create_video (\<lambda>cmd. True) (\<lambda>p. True) ''posix''
        (init_variables\<lparr>input_video := ''in.mp4'', output_video := ''out.mp4'',
                         video_duration := 60\<rparr>)))
     = [[''ffmpeg'', ''-y'', ''-i'', ''in.mp4'', ''-c:v'', ''libx264'', ''-b:v'', ''1127219'',
         ''-pass'', ''1'', ''-an'', ''-f'', ''null'', ''/dev/nul''],
        [''ffmpeg'', ''-i'', ''in.mp4'', ''-c:v'', ''libx264'', ''-b:v'', ''1127219'',
         ''-pass'', ''2'', ''-c:a'', ''aac'', ''-b:a'', ''128k'', ''out.mp4'']]
   \<and> removals (fst (Compress10MBPage_create_video (\<lambda>cmd. True) (\<lambda>p. True) ''posix''
        (init_variables\<lparr>input_video := ''in.mp4'', output_video := ''out.mp4'',
                         video_duration := 60\<rparr>)))
     = [''ffmpeg2pass-0.log'', ''ffmpeg2pass-0.log.mbtree'']"
proof -
  let ?w = "init_variables\<lparr>input_video := ''in.mp4'', output_video := ''out.mp4'',
                             video_duration := 60\<rparr>"
  have 1: "lower (suffix (input_video ?w)) \<in> set VIDEO_EXTENSIONS" by code_simp
  have 2: "lower (suffix (output_video ?w)) \<in> set VIDEO_EXTENSIONS" by code_simp
  have 3: "video_duration ?w = 60" by (simp add: init_variables_def)
  show ?thesis
    using compress_sixty_seconds [OF 1 2 3, of "''posix''" "\<lambda>cmd. True" "\<lambda>p. True"]
    by (simp add: Let_def init_variables_def null_file_def)
qed

subsection \<open>Trim: a start that is not before the end\<close>

text \<open>
  When the frame rate is not zero the two offsets resolve, and a start that is greater
  than or equal to the end is turned down: the handler shows one dialog, either the
  invalid-video warning of the extension test or the failure
  \<^verbatim>\<open>Start time must be less than end time.\<close>, runs no encoder command and raises
  nothing.
\<close>

lemma trim_start_not_before_end:
  assumes "get_start_and_end_trim w t = Inr (start, end)"
    and "start \<ge> end"
  shows "let result = TrimPage_create_video run has_audio str_float w t
         in invocations (fst result) = []
            \<and> snd result = None
            \<and> (fst result = [Message invalid_video]
                \<or> fst result =
                   [Message (operation_failed ''Start time must be less than end time.'')])"
  using assms by (simp add: TrimPage_create_video_def Let_def invocations_def)

lemma trim_resolves_iff: "(\<exists>r. get_start_and_end_trim w t = Inr r) \<longleftrightarrow> frame_rate w \<noteq> 0"
  by (simp add: get_start_and_end_trim_def)

text \<open>
  Claim C7 asks for a validation error for every frame rate.  The frame rate is zero
  when the main window starts, and stays zero after a failed probe.  With video
  extensions on both paths and a frame rate of zero, the offsets are computed by a
  division by zero before the start is compared with the end: whatever the spin boxes
  hold (a start of five seconds and an end of zero, say), the handler ends with an
  unhandled \<^verbatim>\<open>ZeroDivisionError\<close>; no dialog is shown and no encoder is run.
\<close>

theorem trim_zero_frame_rate_raises:
  assumes "lower (suffix (input_video w)) \<in> set VIDEO_EXTENSIONS"
    and "lower (suffix (output_video w)) \<in> set VIDEO_EXTENSIONS"
    and "frame_rate w = 0"
  shows "TrimPage_create_video run has_audio str_float w t = ([], Some ZeroDivisionError)"
  using assms by (simp add: TrimPage_create_video_def get_start_and_end_trim_def)

theorem trim_zero_frame_rate_raises_witness:
  "TrimPage_create_video (\<lambda>cmd. True) (\<lambda>p. True) (\<lambda>x. ''?'')
      (init_variables\<lparr>input_video := ''in.mp4'', output_video := ''out.mp4''\<rparr>)
      \<lparr>start_m = 0, start_s = 5, start_f = 0, end_m = 0, end_s = 0, end_f = 0\<rparr>
   = ([], Some ZeroDivisionError)"
proof -
  let ?w = "init_variables\<lparr>input_video := ''in.mp4'', output_video := ''out.mp4''\<rparr>"
  have 1: "lower (suffix (input_video ?w)) \<in> set VIDEO_EXTENSIONS" by code_simp
  have 2: "lower (suffix (output_video ?w)) \<in> set VIDEO_EXTENSIONS" by code_simp
  have 3: "frame_rate ?w = 0" by (simp add: init_variables_def)
  show ?thesis by (rule trim_zero_frame_rate_raises [OF 1 2 3])
qed

subsection \<open>The metadata probe\<close>

text \<open>
  Claim C8.  When both \<^verbatim>\<open>ffprobe\<close> queries return, the rate output splits at
  \<^verbatim>\<open>/\<close> into pieces whose first two read as the finite numbers \<open>num\<close> and
  \<open>den\<close> (\<open>den\<close> not zero), and the duration output reads as the finite number
  \<open>secs\<close>, the probe stores the frame rate \<open>ceil(num/den)\<close>, replaced by 1 when it
  is not positive, and the duration \<open>secs\<close> with its fractional part dropped; the
  stored frame rate is at least 1.  (Numbers are exact here; see the note on floats.)
\<close>

theorem probe_resolves:
  assumes "ffprobe_fps filename = Inr fps_out"
    and "split CHR ''/'' (strip fps_out) = num_s # den_s # rest"
    and "float_of num_s = Some (Finite num)"
    and "float_of den_s = Some (Finite den)"
    and "den \<noteq> 0"
    and "ffprobe_duration filename = Inr duration_out"
    and "float_of (strip duration_out) = Some (Finite secs)"
  shows "update_video_frame_rate float_of ffprobe_fps ffprobe_duration filename w =
           (w\<lparr>frame_rate := (if \<lceil>num / den\<rceil> \<le> 0 then 1 else \<lceil>num / den\<rceil>),
              video_duration := (if secs < 0 then \<lceil>secs\<rceil> else \<lfloor>secs\<rfloor>)\<rparr>, None)
         \<and> 1 \<le> frame_rate
               (fst (update_video_frame_rate float_of ffprobe_fps ffprobe_duration filename w))"
  using assms
  by (simp add: update_video_frame_rate_def probe_values_def Let_def float_div_def
      math_ceil_def int_of_float_def py_int_def)

theorem probe_resolves_witness:
  "update_video_frame_rate float_decimal (\<lambda>f. Inr ''30000/1001'') (\<lambda>f. Inr ''60.52'')
      ''in.mp4'' init_variables
   = (init_variables\<lparr>frame_rate := 30, video_duration := 60\<rparr>, None)"
proof -
  have 2: "split CHR ''/'' (strip ''30000/1001'') = [''30000'', ''1001'']" by code_simp
  have 3: "float_decimal ''30000'' = Some (Finite 30000)" by code_simp
  have 4: "float_decimal ''1001'' = Some (Finite 1001)" by code_simp
  have 5: "(1001 :: real) \<noteq> 0" by simp
  have 7: "float_decimal (strip ''60.52'') = Some (Finite (1513 / 25))" by code_simp
  show ?thesis
    using probe_resolves [of "\<lambda>f. Inr ''30000/1001''" "''in.mp4''" "''30000/1001''"
        "''30000''" "''1001''" "[]" float_decimal 30000 1001 "\<lambda>f. Inr ''60.52''" "''60.52''"
        "1513 / 25" init_variables, OF refl 2 3 4 5 refl 7]
    by simp
qed

text \<open>
  Claim C9.  Every failure of the probe (a query that cannot be run or decoded, a rate
  output without \<^verbatim>\<open>/\<close>, a first or second piece or a duration output that is not
  a number, a zero denominator) is caught inside the probe and printed; and whenever
  the probe reports an exception, for whatever reason, the main window is returned as
  it was, with frame rate and duration both unchanged.  Nothing is raised to the caller.
\<close>

theorem probe_failure_keeps_state:
  "((\<exists>e. ffprobe_fps filename = Inl e)
     \<or> (\<exists>e. ffprobe_duration filename = Inl e)
     \<or> (\<exists>out. ffprobe_fps filename = Inr out
           \<and> (length (split CHR ''/'' (strip out)) < 2
              \<or> float_of (split CHR ''/'' (strip out) ! 0) = None
              \<or> float_of (split CHR ''/'' (strip out) ! 1) = None
              \<or> float_of (split CHR ''/'' (strip out) ! 1) = Some (Finite 0)))
     \<or> (\<exists>out. ffprobe_duration filename = Inr out \<and> float_of (strip out) = None)
    \<longrightarrow> (\<exists>e. snd (update_video_frame_rate float_of ffprobe_fps ffprobe_duration filename w)
               = Some e))
   \<and> (\<forall>e. snd (update_video_frame_rate float_of ffprobe_fps ffprobe_duration filename w)
            = Some e
          \<longrightarrow> fst (update_video_frame_rate float_of ffprobe_fps ffprobe_duration filename w)
              = w)"
  by (auto simp: update_video_frame_rate_def probe_values_def Let_def float_div_def
      split: sum.splits option.splits pyfloat.splits)

theorem probe_failure_keeps_state_witness:
  "update_video_frame_rate float_decimal (\<lambda>f. Inr ''30/1'') (\<lambda>f. Inr ''N/A'') ''in.mp4''
      (init_variables\<lparr>frame_rate := 24, video_duration := 90\<rparr>)
   = (init_variables\<lparr>frame_rate := 24, video_duration := 90\<rparr>, Some ValueError)"
proof -
  let ?w = "init_variables\<lparr>frame_rate := 24, video_duration := 90\<rparr>"
  let ?u = "update_video_frame_rate float_decimal (\<lambda>f. Inr ''30/1'') (\<lambda>f. Inr ''N/A'')
              ''in.mp4'' ?w"
  have 1: "float_decimal (strip ''N/A'') = None" by code_simp
  note T = probe_failure_keeps_state [of "\<lambda>f. Inr ''30/1''" "''in.mp4''" "\<lambda>f. Inr ''N/A''"
      float_decimal ?w]
  have "\<exists>e. snd ?u = Some e" using T 1 by simp
  then have "fst ?u = ?w" using T by blast
  moreover have "snd ?u = Some ValueError" by code_simp
  ultimately show ?thesis by (simp add: prod_eq_iff)
qed

subsection \<open>Staged names\<close>

lemma digit_value_digit_char: "d < 10 \<Longrightarrow> digit_value (digit_char d) = int d"
proof -
  assume "d < 10"
  then have "d \<in> {0, 1, 2, 3, 4, 5, 6, 7, 8, 9}" by auto
  then show ?thesis
    by (auto simp: digit_value_def digit_char_def)
qed

lemma int_of_digits_snoc: "int_of_digits (ds @ [c]) = 10 * int_of_digits ds + digit_value c"
  by (simp add: int_of_digits_def)

lemma int_of_digits_str_nat: "int_of_digits (str_nat n) = int n"
proof (induction n rule: str_nat.induct)
  case (1 n)
  show ?case
  proof (cases "n < 10")
    case True
    then show ?thesis
      by (subst str_nat.simps) (simp add: int_of_digits_def digit_value_digit_char)
  next
    case False
    then have "int_of_digits (str_nat (n div 10)) = int (n div 10)" by (rule "1.IH")
    moreover have "10 * int (n div 10) + int (n mod 10) = int n"
      by (simp add: zdiv_int zmod_int)
    ultimately show ?thesis
      using False
      by (subst str_nat.simps) (simp add: int_of_digits_snoc digit_value_digit_char)
  qed
qed

lemma int_of_digits_zeros: "foldl (\<lambda>n c. 10 * n + digit_value c) 0 (replicate k CHR ''0'') = 0"
  by (induction k) (simp_all add: digit_value_def)

lemma int_of_digits_format_02d: "int_of_digits (format_02d n) = int n"
  using int_of_digits_str_nat [of n]
  by (simp add: format_02d_def Let_def int_of_digits_def int_of_digits_zeros)

lemma staged_name_inject: "staged_name j = staged_name k \<Longrightarrow> j = k"
proof -
  assume "staged_name j = staged_name k"
  then have "format_02d j = format_02d k" by (simp add: staged_name_def)
  then have "int_of_digits (format_02d j) = int_of_digits (format_02d k)" by simp
  then show "j = k" by (simp add: int_of_digits_format_02d)
qed

lemma staged_name_prefix: "take 4 (staged_name k) = ''img-''"
  by (simp add: staged_name_def)

lemma length_str_nat_small: "n < 100 \<Longrightarrow> length (str_nat n) = (if n < 10 then 1 else 2)"
proof -
  assume n: "n < 100"
  show ?thesis
  proof (cases "n < 10")
    case True
    then show ?thesis by (subst str_nat.simps) simp
  next
    case False
    with n have "n div 10 < 10" by simp
    then have "length (str_nat (n div 10)) = 1" by (subst str_nat.simps) simp
    with False show ?thesis by (subst str_nat.simps) simp
  qed
qed

lemma length_format_02d: "n < 100 \<Longrightarrow> length (format_02d n) = 2"
  by (simp add: format_02d_def Let_def length_str_nat_small)

lemma fnmatch_staged_name: "k < 100 \<Longrightarrow> fnmatch (staged_name k) ''img-??.jpg''"
proof -
  assume "k < 100"
  then have "length (format_02d k) = 2" by (rule length_format_02d)
  then obtain a b where "format_02d k = [a, b]"
    by (cases "format_02d k"; cases "tl (format_02d k)") auto
  then show ?thesis by (simp add: staged_name_def)
qed

lemma fnmatch_prefix:
  "fnmatch name (q @ p) \<Longrightarrow> CHR ''?'' \<notin> set q \<Longrightarrow> take (length q) name = q"
proof (induction q arbitrary: name)
  case Nil
  then show ?case by simp
next
  case (Cons c q)
  then show ?case by (cases name) auto
qed

lemma fnmatch_img_prefix: "fnmatch name ''img-??.jpg'' \<Longrightarrow> take 4 name = ''img-''"
  using fnmatch_prefix [of name "''img-''" "''??.jpg''"] by (simp add: eval_nat_numeral)

subsection \<open>The glob pattern of the cleanup\<close>

lemma rfind_behind_last:
  assumes "X \<noteq> []" and "last X = c" and "c \<notin> set b"
  shows "rfind c (X @ b) = int (length X) - 1"
proof -
  obtain Y where "X = Y @ [c]"
    using assms(1,2) by (metis append_butlast_last_id)
  then have "takeWhile (\<lambda>x. x \<noteq> c) (rev X) = []" by simp
  moreover have "\<forall>x \<in> set (rev b). x \<noteq> c" using assms(3) by auto
  ultimately have "takeWhile (\<lambda>x. x \<noteq> c) (rev (X @ b)) = rev b"
    using takeWhile_append2 [of "rev b" "\<lambda>x. x \<noteq> c" "rev X"] by simp
  moreover have "c \<in> set (X @ b)" using assms(1,2) last_in_set by fastforce
  ultimately show ?thesis by (simp add: rfind_def)
qed

lemma os_path_split_pattern:
  assumes "dir \<noteq> []"
  shows "\<exists>dn. os_path_split (path_join dir ''img-??.jpg'') = (dn, ''img-??.jpg'')
           \<and> dn \<noteq> [] \<and> set dn \<subseteq> insert CHR ''/'' (set dir)"
proof -
  define X where "X = (if last dir = CHR ''/'' then dir else dir @ ''/'')"
  have X: "X \<noteq> []" "last X = CHR ''/''" "set X \<subseteq> insert CHR ''/'' (set dir)"
    using assms by (auto simp: X_def)
  have join: "path_join dir ''img-??.jpg'' = X @ ''img-??.jpg''"
    using assms by (simp add: path_join_def X_def)
  have "rfind CHR ''/'' (X @ ''img-??.jpg'') = int (length X) - 1"
    by (rule rfind_behind_last [OF X(1,2)]) simp
  then have i: "nat (rfind CHR ''/'' (X @ ''img-??.jpg'') + 1) = length X" by simp
  let ?dn = "if X \<noteq> replicate (length X) CHR ''/''
             then rev (dropWhile (\<lambda>c. c = CHR ''/'') (rev X)) else X"
  have split: "os_path_split (path_join dir ''img-??.jpg'') = (?dn, ''img-??.jpg'')"
    using X(1) by (simp add: os_path_split_def join i Let_def)
  have "?dn \<noteq> []"
  proof (cases "X = replicate (length X) CHR ''/''")
    case True
    then show ?thesis using X(1) by simp
  next
    case False
    then have "\<exists>x \<in> set X. x \<noteq> CHR ''/''"
      by (metis replicate_eqI)
    then have "dropWhile (\<lambda>c. c = CHR ''/'') (rev X) \<noteq> []"
      by (auto simp: dropWhile_eq_Nil_conv)
    with False show ?thesis by simp
  qed
  moreover have "set ?dn \<subseteq> insert CHR ''/'' (set dir)"
    using X(3) set_dropWhileD [of _ "\<lambda>c. c = CHR ''/''" "rev X"] by auto
  ultimately show ?thesis using split by blast
qed

lemma has_magic_iff: "has_magic s \<longleftrightarrow> (\<exists>c \<in> set s. c = CHR ''*'' \<or> c = CHR ''?'' \<or> c = CHR ''['')"
  by (auto simp: has_magic_def list_ex_iff)

lemma path_join_inject:
  assumes "path_join dn a = path_join dn b"
    and "CHR ''/'' \<notin> set a" and "CHR ''/'' \<notin> set b"
  shows "a = b"
proof -
  have "a = [] \<or> hd a \<noteq> CHR ''/''" using assms(2) by (cases a) auto
  moreover have "b = [] \<or> hd b \<noteq> CHR ''/''" using assms(3) by (cases b) auto
  ultimately show ?thesis
    using assms(1) by (auto simp: path_join_def split: if_splits)
qed

lemma fold_os_remove:
  "fold (os_remove dn) files d = filter (\<lambda>e. path_join dn (fst e) \<notin> set files) d"
proof (induction files arbitrary: d)
  case Nil
  then show ?case by simp
next
  case (Cons f files)
  have "fold (os_remove dn) (f # files) d
      = filter (\<lambda>e. path_join dn (fst e) \<notin> set files) (os_remove dn f d)"
    by (simp add: Cons.IH)
  also have "\<dots> = filter (\<lambda>e. path_join dn (fst e) \<notin> set (f # files)) d"
    by (auto simp: os_remove_def intro: filter_cong)
  finally show ?case .
qed

lemma digit_char_no_slash: "d < 10 \<Longrightarrow> digit_char d \<noteq> CHR ''/''"
proof -
  assume "d < 10"
  then have "d \<in> {0, 1, 2, 3, 4, 5, 6, 7, 8, 9}" by auto
  then show ?thesis by (auto simp: digit_char_def)
qed

lemma str_nat_no_slash: "CHR ''/'' \<notin> set (str_nat n)"
proof (induction n rule: str_nat.induct)
  case (1 n)
  show ?case
  proof (cases "n < 10")
    case True
    then show ?thesis
      by (subst str_nat.simps) (simp add: digit_char_no_slash [THEN not_sym])
  next
    case False
    then have "CHR ''/'' \<notin> set (str_nat (n div 10))" by (rule "1.IH")
    with False show ?thesis
      by (subst str_nat.simps) (simp add: digit_char_no_slash [THEN not_sym])
  qed
qed

lemma staged_name_no_slash: "CHR ''/'' \<notin> set (staged_name k)"
  using str_nat_no_slash [of k] by (auto simp: staged_name_def format_02d_def Let_def)

subsection \<open>Staging and cleanup of the image sequence\<close>

lemma update_fresh: "k \<notin> fst ` set al \<Longrightarrow> AList.update k v al = al @ [(k, v)]"
  by (induction al) auto

lemma copies_simps:
  "copies [] = []"
  "copies (Run c # evs) = copies evs"
  "copies (Message m # evs) = copies evs"
  "copies (Remove p # evs) = copies evs"
  "copies (Copy a b # evs) = (a, b) # copies evs"
  "copies (xs @ ys) = copies xs @ copies ys"
  by (simp_all add: copies_def)

lemma copies_map_Copy:
  "copies (map (\<lambda>(e, n). Copy (f e) (g n)) (zip xs ys)) = zip (map f xs) (map g ys)"
  by (induction xs ys rule: list_induct2') (simp_all add: copies_simps)

lemma removals_map_Copy: "removals (map (\<lambda>(e, n). Copy (f e) (g n)) ps) = []"
  by (induction ps) (auto simp: removals_simps)

text \<open>
  The loop on a directory \<open>d\<close> none of whose names starts with \<^verbatim>\<open>img-\<close>, after
  the copies \<open>S\<close> numbered below \<open>num\<close> have been added: every further copy goes to a
  new name.
\<close>

lemma fix_naming_loop_fresh:
  assumes "\<forall>name \<in> fst ` set d. take 4 name \<noteq> ''img-''"
    and "distinct (map fst d)"
    and "set es \<subseteq> set d"
    and "fst ` set S \<subseteq> staged_name ` {k. k < num}"
  shows "fix_naming_loop dir (map fst es) num (d @ S) =
     (let imgs = filter (\<lambda>e. lower (suffix (fst e)) \<in> set IMAGE_EXTENSIONS) es;
          names = map staged_name [num ..< num + length imgs]
      in (d @ S @ zip names (map snd imgs),
          map (\<lambda>(e, n). Copy (path_join dir (fst e)) (path_join dir n)) (zip imgs names),
          None))"
  using assms(3,4)
proof (induction es arbitrary: num S)
  case Nil
  then show ?case by simp
next
  case (Cons e es)
  show ?case
  proof (cases "lower (suffix (fst e)) \<in> set IMAGE_EXTENSIONS")
    case False
    with Cons show ?thesis by simp
  next
    case True
    let ?name = "staged_name num"
    have e: "e \<in> set d" using Cons.prems(1) by simp
    then have orig: "take 4 (fst e) \<noteq> ''img-''" using assms(1) by auto
    then have ne: "fst e \<noteq> ?name" using staged_name_prefix [of num] by auto
    have "map_of d (fst e) = Some (snd e)"
      using map_of_is_SomeI [OF assms(2), of "fst e" "snd e"] e by simp
    then have look: "map_of (d @ S) (fst e) = Some (snd e)"
      by (simp add: map_add_def)
    have "?name \<notin> fst ` set d"
      using assms(1) staged_name_prefix [of num] by auto
    moreover have "?name \<notin> fst ` set S"
    proof
      assume "?name \<in> fst ` set S"
      then have "?name \<in> staged_name ` {k. k < num}" using Cons.prems(2) by blast
      then obtain k where "k < num" and "staged_name num = staged_name k" by blast
      then show False using staged_name_inject [of num k] by simp
    qed
    ultimately have "?name \<notin> fst ` set (d @ S)" by auto
    then have upd: "AList.update ?name (snd e) (d @ S) = d @ (S @ [(?name, snd e)])"
      by (simp add: update_fresh)
    have S': "fst ` set (S @ [(?name, snd e)]) \<subseteq> staged_name ` {k. k < Suc num}"
      using Cons.prems(2) by (auto simp: less_Suc_eq)
    have es: "set es \<subseteq> set d" using Cons.prems(1) by simp
    have upt: "[num ..< Suc (num + n)] = num # [Suc num ..< Suc (num + n)]" for n
      by (simp add: upt_conv_Cons)
    show ?thesis
      using True ne look
      by (simp add: shutil_copy_def upd Cons.IH [OF es S'] Let_def upt del: upt_Suc)
  qed
qed

lemma match_staged_after:
  assumes "\<forall>name \<in> fst ` set d. take 4 name \<noteq> ''img-''"
    and "length cs = n" and "n < 100"
  shows "filter (\<lambda>name. fnmatch name ''img-??.jpg'')
           (map fst (d @ zip (map staged_name [1 ..< Suc n]) cs))
         = map staged_name [1 ..< Suc n]"
proof -
  have "filter (\<lambda>name. fnmatch name ''img-??.jpg'') (map fst d) = []"
    using assms(1) fnmatch_img_prefix by (auto simp: filter_empty_conv)
  moreover have "filter (\<lambda>name. fnmatch name ''img-??.jpg'') (map staged_name [1 ..< Suc n])
      = map staged_name [1 ..< Suc n]"
    using assms(3) by (auto simp: filter_id_conv intro: fnmatch_staged_name)
  moreover have "map fst (zip (map staged_name [1 ..< Suc n]) cs) = map staged_name [1 ..< Suc n]"
    using assms(2) by (simp add: map_fst_zip)
  ultimately show ?thesis by simp
qed

lemma remove_staged:
  assumes "\<forall>name \<in> fst ` set d. take 4 name \<noteq> ''img-'' \<and> CHR ''/'' \<notin> set name"
    and "set files = path_join dn ` staged_name ` set ks"
  shows "fold (os_remove dn) files (d @ zip (map staged_name ks) cs) = d"
proof -
  have "path_join dn (fst e) \<notin> set files" if "e \<in> set d" for e
  proof
    assume "path_join dn (fst e) \<in> set files"
    then obtain k where "path_join dn (fst e) = path_join dn (staged_name k)"
      using assms(2) by auto
    moreover have "CHR ''/'' \<notin> set (fst e)" using assms(1) that by auto
    ultimately have "fst e = staged_name k"
      using path_join_inject staged_name_no_slash by blast
    then show False using assms(1) that staged_name_prefix [of k] by auto
  qed
  then have "filter (\<lambda>e. path_join dn (fst e) \<notin> set files) d = d"
    by (simp add: filter_id_conv)
  moreover have "filter (\<lambda>e. path_join dn (fst e) \<notin> set files) (zip (map staged_name ks) cs) = []"
    using assms(2) by (auto simp: filter_empty_conv dest: set_zip_leftD)
  ultimately show ?thesis by (simp add: fold_os_remove)
qed

text \<open>
  Claim C5 as stated: each staged copy keeps the extension of its source.  The code
  names every staged copy \<^verbatim>\<open>img-NN.jpg\<close>, whatever the source's extension is: the
  copy of \<^verbatim>\<open>a.png\<close> is \<^verbatim>\<open>img-01.jpg\<close>.
\<close>

theorem image_staging_counterexample:
  "fix_naming (init_variables\<lparr>images_dir := ''pics''\<rparr>) [(''a.png'', 1 :: nat)]
     = ([(''a.png'', 1), (''img-01.jpg'', 1)], [Copy ''pics/a.png'' ''pics/img-01.jpg''], None)
   \<and> suffix ''img-01.jpg'' \<noteq> suffix ''a.png''"
  by code_simp

lemma image_staging_aux:
  assumes "lower (suffix (output_video w)) \<in> set VIDEO_EXTENSIONS"
    and "images_dir w \<noteq> []"
    and "\<not> has_magic (images_dir w)"
    and "distinct (map fst d)"
    and "\<forall>name \<in> set (map fst d). take 4 name \<noteq> ''img-'' \<and> CHR ''/'' \<notin> set name"
    and "\<forall>listing. mset (scandir listing) = mset listing"
    and imgs: "imgs = filter (\<lambda>e. lower (suffix (fst e)) \<in> set IMAGE_EXTENSIONS) d"
    and names: "names = map staged_name [1 ..< Suc (length imgs)]"
    and dirname: "dirname = fst (os_path_split (path_join (images_dir w) ''img-??.jpg''))"
    and result: "result = ImageToVideoPage_create_video run scandir glob_outside w d"
  shows "fst (fix_naming w d) = d @ zip names (map snd imgs)
     \<and> snd (snd result) = None
     \<and> copies (fst (snd result)) =
         zip (map (\<lambda>e. path_join (images_dir w) (fst e)) imgs)
             (map (path_join (images_dir w)) names)
     \<and> (if run (image_cmd w)
         then length imgs < 100 \<longrightarrow>
                fst result = d
                \<and> mset (removals (fst (snd result))) = mset (map (path_join dirname) names)
         else fst result = d @ zip names (map snd imgs)
              \<and> removals (fst (snd result)) = [])"
proof -
  let ?dir = "images_dir w"
  let ?evs = "map (\<lambda>(e, n). Copy (path_join ?dir (fst e)) (path_join ?dir n)) (zip imgs names)"
  let ?d1 = "d @ zip names (map snd imgs)"
  let ?pattern = "path_join ?dir ''img-??.jpg''"
  have orig: "\<forall>name \<in> fst ` set d. take 4 name \<noteq> ''img-''"
    using assms(5) by simp
  have orig': "\<forall>name \<in> fst ` set d. take 4 name \<noteq> ''img-'' \<and> CHR ''/'' \<notin> set name"
    using assms(5) by simp
  have "fix_naming_loop ?dir (map fst d) 1 (d @ []) = (d @ [] @ zip names (map snd imgs), ?evs, None)"
    using fix_naming_loop_fresh [OF orig assms(4), of d "[]" 1 ?dir]
    by (simp add: Let_def imgs names del: upt_Suc)
  then have staged: "fix_naming w d = (?d1, ?evs, None)"
    using assms(2) by (simp add: fix_naming_def)
  have cp: "copies ?evs = zip (map (\<lambda>e. path_join ?dir (fst e)) imgs) (map (path_join ?dir) names)"
    by (rule copies_map_Copy)
  have rm: "removals ?evs = []"
    by (rule removals_map_Copy)
  obtain dn where split: "os_path_split ?pattern = (dn, ''img-??.jpg'')"
    and dn: "dn \<noteq> []" "set dn \<subseteq> insert CHR ''/'' (set ?dir)"
    using os_path_split_pattern [OF assms(2)] by blast
  have magic: "\<not> has_magic dn"
    using assms(3) dn(2) by (auto simp: has_magic_iff)
  have dirname': "dirname = dn" by (simp add: dirname split)
  define ms where "ms = filter (\<lambda>name. fnmatch name ''img-??.jpg'') (scandir (map fst ?d1))"
  define files where "files = map (path_join dn) ms"
  have files: "glob scandir glob_outside ?pattern ?d1 = files"
    using dn(1) magic by (simp add: glob_def split files_def ms_def)
  show ?thesis
  proof (cases "run (image_cmd w)")
    case False
    then have "result = (?d1, ?evs @ [Run (image_cmd w), Message (operation_failed [])], None)"
      using assms(1) by (simp add: result ImageToVideoPage_create_video_def staged)
    with False show ?thesis
      by (simp add: staged cp rm copies_simps removals_simps)
  next
    case True
    then have res: "result
        = (fold (os_remove dn) files ?d1,
           ?evs @ [Run (image_cmd w),
                   Message (operation_success ''Image to video conversion completed successfully.'')]
                @ map Remove files,
           None)"
      using assms(1)
      by (simp add: result ImageToVideoPage_create_video_def staged Let_def files split)
    have cmap: "copies (map Remove ps) = []" for ps
      by (induction ps) (simp_all add: copies_simps)
    have base: "snd (snd result) = None"
      "copies (fst (snd result)) =
         zip (map (\<lambda>e. path_join ?dir (fst e)) imgs) (map (path_join ?dir) names)"
      "removals (fst (snd result)) = files"
      by (simp_all add: res cp rm cmap copies_simps removals_simps removals_map_Remove)
    have small: "fst result = d \<and> mset (removals (fst (snd result))) = mset (map (path_join dn) names)"
      if "length imgs < 100"
    proof -
      have "mset ms = filter_mset (\<lambda>name. fnmatch name ''img-??.jpg'') (mset (map fst ?d1))"
        unfolding ms_def using assms(6) by (simp only: mset_filter)
      also have "\<dots> = mset (filter (\<lambda>name. fnmatch name ''img-??.jpg'') (map fst ?d1))"
        by (simp only: mset_filter)
      also have "filter (\<lambda>name. fnmatch name ''img-??.jpg'') (map fst ?d1) = names"
        using match_staged_after [OF orig, of "map snd imgs" "length imgs"] that
        by (simp add: names)
      finally have ms: "mset ms = mset names" .
      then have "set ms = set names" by (rule mset_eq_setD)
      then have "set files = path_join dn ` staged_name ` set [1 ..< Suc (length imgs)]"
        by (simp add: files_def names del: upt_Suc)
      then have "fold (os_remove dn) files ?d1 = d"
        unfolding names by (rule remove_staged [OF orig'])
      moreover have "mset files = mset (map (path_join dn) names)"
        unfolding files_def using ms by (metis mset_map)
      moreover have "fst result = fold (os_remove dn) files ?d1" by (simp add: res)
      ultimately show ?thesis by (simp only: base(3))
    qed
    show ?thesis
      using True small by (simp add: staged base dirname')
  qed
qed

text \<open>
  Claim C5, amended.  Take a directory whose path is not empty and has none of the
  wildcard characters \<^verbatim>\<open>*\<close>, \<^verbatim>\<open>?\<close>, \<^verbatim>\<open>[\<close>, with distinct file names none of which
  starts with \<^verbatim>\<open>img-\<close> (or holds a slash), and a video output path.  Staging copies
  exactly the files whose extension is an image extension, in listing order, the
  \<open>k\<close>-th of them (counted from 1) to \<^verbatim>\<open>img-KK.jpg\<close> (two digits, always the
  extension \<^verbatim>\<open>.jpg\<close>); each copy is a new file, so the directory after staging is
  the old one followed by the copies, and no original is overwritten.  When the encoder
  then fails, nothing is deleted.  When it succeeds and there are fewer than 100
  images, the cleanup deletes exactly the staged copies, once each and in whatever
  order the file system lists them, and the directory is again what it was.
\<close>

theorem image_staging_and_cleanup:
  assumes "lower (suffix (output_video w)) \<in> set VIDEO_EXTENSIONS"
    and "images_dir w \<noteq> []"
    and "\<not> has_magic (images_dir w)"
    and "distinct (map fst d)"
    and "\<forall>name \<in> set (map fst d). take 4 name \<noteq> ''img-'' \<and> CHR ''/'' \<notin> set name"
    and "\<forall>listing. mset (scandir listing) = mset listing"
  shows "let imgs = filter (\<lambda>e. lower (suffix (fst e)) \<in> set IMAGE_EXTENSIONS) d;
             names = map staged_name [1 ..< Suc (length imgs)];
             dirname = fst (os_path_split (path_join (images_dir w) ''img-??.jpg''));
             result = ImageToVideoPage_create_video run scandir glob_outside w d
         in fst (fix_naming w d) = d @ zip names (map snd imgs)
            \<and> snd (snd result) = None
            \<and> copies (fst (snd result)) =
                zip (map (\<lambda>e. path_join (images_dir w) (fst e)) imgs)
                    (map (path_join (images_dir w)) names)
            \<and> (if run (image_cmd w)
                then length imgs < 100 \<longrightarrow>
                       fst result = d
                       \<and> mset (removals (fst (snd result)))
                           = mset (map (path_join dirname) names)
                else fst result = d @ zip names (map snd imgs)
                     \<and> removals (fst (snd result)) = [])"
  unfolding Let_def by (rule image_staging_aux [OF assms refl refl refl refl])

theorem image_staging_and_cleanup_witness:
  "ImageToVideoPage_create_video (\<lambda>cmd. True) rev (\<lambda>pathname. [])
      (init_variables\<lparr>images_dir := ''pics'', output_video := ''out.mp4''\<rparr>)
      [(''a.jpg'', 1 :: nat), (''notes.txt'', 2), (''b.PNG'', 3), (''c.jpeg'', 4),
       (''d.gif'', 5), (''track.mp3'', 6), (''e.bmp'', 7)]
   = ([(''a.jpg'', 1), (''notes.txt'', 2), (''b.PNG'', 3), (''c.jpeg'', 4),
       (''d.gif'', 5), (''track.mp3'', 6), (''e.bmp'', 7)],
      [Copy ''pics/a.jpg'' ''pics/img-01.jpg'', Copy ''pics/b.PNG'' ''pics/img-02.jpg'',
       Copy ''pics/c.jpeg'' ''pics/img-03.jpg'', Copy ''pics/d.gif'' ''pics/img-04.jpg'',
       Copy ''pics/e.bmp'' ''pics/img-05.jpg'',
       Run (image_cmd (init_variables\<lparr>images_dir := ''pics'', output_video := ''out.mp4''\<rparr>)),
       Message (operation_success ''Image to video conversion completed successfully.''),
       Remove ''pics/img-05.jpg'', Remove ''pics/img-04.jpg'', Remove ''pics/img-03.jpg'',
       Remove ''pics/img-02.jpg'', Remove ''pics/img-01.jpg''],
      None)
   \<and> fst (fix_naming (init_variables\<lparr>images_dir := ''pics'', output_video := ''out.mp4''\<rparr>)
        [(''a.jpg'', 1 :: nat), (''notes.txt'', 2), (''b.PNG'', 3), (''c.jpeg'', 4),
         (''d.gif'', 5), (''track.mp3'', 6), (''e.bmp'', 7)])
     = [(''a.jpg'', 1), (''notes.txt'', 2), (''b.PNG'', 3), (''c.jpeg'', 4),
        (''d.gif'', 5), (''track.mp3'', 6), (''e.bmp'', 7),
        (''img-01.jpg'', 1), (''img-02.jpg'', 3), (''img-03.jpg'', 4), (''img-04.jpg'', 5),
        (''img-05.jpg'', 7)]"
proof -
  let ?w = "init_variables\<lparr>images_dir := ''pics'', output_video := ''out.mp4''\<rparr>"
  let ?d = "[(''a.jpg'', 1 :: nat), (''notes.txt'', 2), (''b.PNG'', 3), (''c.jpeg'', 4),
             (''d.gif'', 5), (''track.mp3'', 6), (''e.bmp'', 7)]"
  have 1: "lower (suffix (output_video ?w)) \<in> set VIDEO_EXTENSIONS" by code_simp
  have 2: "images_dir ?w \<noteq> []" by (simp add: init_variables_def)
  have 3: "\<not> has_magic (images_dir ?w)" by (simp add: init_variables_def has_magic_def)
  have 4: "distinct (map fst ?d)" by simp
  have 5: "\<forall>name \<in> set (map fst ?d). take 4 name \<noteq> ''img-'' \<and> CHR ''/'' \<notin> set name" by simp
  have 6: "\<forall>listing :: string list. mset (rev listing) = mset listing" by simp
  have imgs: "filter (\<lambda>e. lower (suffix (fst e)) \<in> set IMAGE_EXTENSIONS) ?d
      = [(''a.jpg'', 1), (''b.PNG'', 3), (''c.jpeg'', 4), (''d.gif'', 5), (''e.bmp'', 7)]"
    by code_simp
  have names: "zip (map staged_name [1 ..< Suc (length
        [(''a.jpg'', 1 :: nat), (''b.PNG'', 3), (''c.jpeg'', 4), (''d.gif'', 5), (''e.bmp'', 7)])])
        (map snd [(''a.jpg'', 1 :: nat), (''b.PNG'', 3), (''c.jpeg'', 4), (''d.gif'', 5), (''e.bmp'', 7)])
      = [(''img-01.jpg'', 1), (''img-02.jpg'', 3), (''img-03.jpg'', 4), (''img-04.jpg'', 5),
         (''img-05.jpg'', 7)]"
    by code_simp
  have "fst (fix_naming ?w ?d) = ?d @
      zip (map staged_name [1 ..< Suc (length
             (filter (\<lambda>e. lower (suffix (fst e)) \<in> set IMAGE_EXTENSIONS) ?d))])
          (map snd (filter (\<lambda>e. lower (suffix (fst e)) \<in> set IMAGE_EXTENSIONS) ?d))"
    using image_staging_and_cleanup [OF 1 2 3 4 5 6, of "\<lambda>cmd. True" "\<lambda>pathname. []",
        unfolded Let_def]
    by (rule conjunct1)
  then have staged: "fst (fix_naming ?w ?d) = ?d @
      [(''img-01.jpg'', 1), (''img-02.jpg'', 3), (''img-03.jpg'', 4), (''img-04.jpg'', 5),
       (''img-05.jpg'', 7)]"
    unfolding imgs names .
  have full: "ImageToVideoPage_create_video (\<lambda>cmd. True) rev (\<lambda>pathname. []) ?w ?d
     = (?d,
      [Copy ''pics/a.jpg'' ''pics/img-01.jpg'', Copy ''pics/b.PNG'' ''pics/img-02.jpg'',
       Copy ''pics/c.jpeg'' ''pics/img-03.jpg'', Copy ''pics/d.gif'' ''pics/img-04.jpg'',
       Copy ''pics/e.bmp'' ''pics/img-05.jpg'',
       Run (image_cmd ?w),
       Message (operation_success ''Image to video conversion completed successfully.''),
       Remove ''pics/img-05.jpg'', Remove ''pics/img-04.jpg'', Remove ''pics/img-03.jpg'',
       Remove ''pics/img-02.jpg'', Remove ''pics/img-01.jpg''],
      None)"
    by code_simp
  show ?thesis
    unfolding full staged by simp
qed

text \<open>
  A directory path with a wildcard character is read as a pattern by the cleanup: for
  \<^verbatim>\<open>pics[1]\<close> the library looks into \<^verbatim>\<open>pics1\<close>, so what it finds there is removed
  and the staged copies stay.
\<close>

lemma image_cleanup_wildcard_directory:
  "ImageToVideoPage_create_video (\<lambda>cmd. True) rev (\<lambda>pathname. [''pics1/img-77.jpg''])
      (init_variables\<lparr>images_dir := ''pics[1]'', output_video := ''out.mp4''\<rparr>)
      [(''a.png'', 1 :: nat)]
   = ([(''a.png'', 1), (''img-01.jpg'', 1)],
      [Copy ''pics[1]/a.png'' ''pics[1]/img-01.jpg'',
       Run (image_cmd (init_variables\<lparr>images_dir := ''pics[1]'', output_video := ''out.mp4''\<rparr>)),
       Message (operation_success ''Image to video conversion completed successfully.''),
       Remove ''pics1/img-77.jpg''],
      None)"
  by code_simp

subsection \<open>When the cleanup runs\<close>

text \<open>
  Claim C3 as stated: the cleanup runs after the last attempted encoder run in every
  outcome.  In the image-to-video handler the deletion loop stands inside the
  \<^verbatim>\<open>try\<close> block behind the encoder run (``after successful video creation, delete
  the used images''), so a failing run skips it: here one image is staged, the run
  fails, nothing is removed, and the staged copy is still in the directory, where the
  glob pattern of the cleanup finds it.
\<close>

theorem cleanup_counterexample:
  "invocations (fst (snd (ImageToVideoPage_create_video (\<lambda>cmd. False) (\<lambda>listing. listing)
       (\<lambda>pathname. [])
       (init_variables\<lparr>images_dir := ''pics'', output_video := ''out.mp4''\<rparr>)
       [(''a.png'', 1 :: nat)])))
     = [image_cmd (init_variables\<lparr>images_dir := ''pics'', output_video := ''out.mp4''\<rparr>)]
   \<and> removals (fst (snd (ImageToVideoPage_create_video (\<lambda>cmd. False) (\<lambda>listing. listing)
       (\<lambda>pathname. [])
       (init_variables\<lparr>images_dir := ''pics'', output_video := ''out.mp4''\<rparr>)
       [(''a.png'', 1 :: nat)]))) = []
   \<and> glob (\<lambda>listing. listing) (\<lambda>pathname. []) ''pics/img-??.jpg''
       (fst (ImageToVideoPage_create_video (\<lambda>cmd. False) (\<lambda>listing. listing)
          (\<lambda>pathname. [])
          (init_variables\<lparr>images_dir := ''pics'', output_video := ''out.mp4''\<rparr>)
          [(''a.png'', 1 :: nat)])) = [''pics/img-01.jpg'']"
  by code_simp

text \<open>
  Claim C3, amended.  In the compression handler, once the second pass has been
  attempted (the first pass succeeded), the cleanup runs after it whether it succeeded
  or failed: the events are the two runs, the dialog, and then the removal of each
  statistics file that exists.  In the image-to-video handler, after the staging, the
  cleanup runs after the encoder run when that run succeeds (the files found by the
  pattern \<^verbatim>\<open>img-??.jpg\<close> are removed, after the run and the dialog); when the run
  fails, no cleanup is done and the directory keeps the staged copies.
\<close>

theorem cleanup_after_attempted_run:
  "(lower (suffix (input_video w)) \<in> set VIDEO_EXTENSIONS
      \<and> lower (suffix (output_video w)) \<in> set VIDEO_EXTENSIONS
      \<and> video_bitrate (video_duration w) = Inr vb
      \<and> run (first_pass_cmd os_name w vb)
    \<longrightarrow> Compress10MBPage_create_video run path_exists os_name w =
         ([Run (first_pass_cmd os_name w vb), Run (second_pass_cmd w vb),
           Message (if run (second_pass_cmd w vb)
                    then operation_success ''Compression completed successfully.''
                    else operation_failed ''Second pass failed'')]
          @ map Remove (filter path_exists two_pass_logs), None))
   \<and> (lower (suffix (output_video w')) \<in> set VIDEO_EXTENSIONS
      \<and> fix_naming w' d = (d1, evs, None)
    \<longrightarrow> ImageToVideoPage_create_video run' scandir glob_outside w' d =
         (if run' (image_cmd w')
          then (fold (os_remove (fst (os_path_split (path_join (images_dir w') ''img-??.jpg''))))
                  (glob scandir glob_outside (path_join (images_dir w') ''img-??.jpg'') d1) d1,
                evs @ [Run (image_cmd w'),
                       Message (operation_success
                         ''Image to video conversion completed successfully.'')]
                    @ map Remove
                        (glob scandir glob_outside (path_join (images_dir w') ''img-??.jpg'') d1),
                None)
          else (d1, evs @ [Run (image_cmd w'), Message (operation_failed [])], None)))"
proof (intro conjI impI)
  assume "lower (suffix (input_video w)) \<in> set VIDEO_EXTENSIONS
      \<and> lower (suffix (output_video w)) \<in> set VIDEO_EXTENSIONS
      \<and> video_bitrate (video_duration w) = Inr vb
      \<and> run (first_pass_cmd os_name w vb)"
  then show "Compress10MBPage_create_video run path_exists os_name w =
         ([Run (first_pass_cmd os_name w vb), Run (second_pass_cmd w vb),
           Message (if run (second_pass_cmd w vb)
                    then operation_success ''Compression completed successfully.''
                    else operation_failed ''Second pass failed'')]
          @ map Remove (filter path_exists two_pass_logs), None)"
    by (simp add: compress_events)
next
  assume "lower (suffix (output_video w')) \<in> set VIDEO_EXTENSIONS
      \<and> fix_naming w' d = (d1, evs, None)"
  then show "ImageToVideoPage_create_video run' scandir glob_outside w' d =
         (if run' (image_cmd w')
          then (fold (os_remove (fst (os_path_split (path_join (images_dir w') ''img-??.jpg''))))
                  (glob scandir glob_outside (path_join (images_dir w') ''img-??.jpg'') d1) d1,
                evs @ [Run (image_cmd w'),
                       Message (operation_success
                         ''Image to video conversion completed successfully.'')]
                    @ map Remove
                        (glob scandir glob_outside (path_join (images_dir w') ''img-??.jpg'') d1),
                None)
          else (d1, evs @ [Run (image_cmd w'), Message (operation_failed [])], None))"
    by (simp add: ImageToVideoPage_create_video_def Let_def)
qed

theorem cleanup_after_attempted_run_witness:
  "Compress10MBPage_create_video (\<lambda>cmd. cmd ! 1 = ''-y'') (\<lambda>p. True) ''posix''
      (init_variables\<lparr>input_video := ''in.mp4'', output_video := ''out.mp4'',
                       video_duration := 60\<rparr>)
   = ([Run [''ffmpeg'', ''-y'', ''-i'', ''in.mp4'', ''-c:v'', ''libx264'', ''-b:v'', ''1127219'',
            ''-pass'', ''1'', ''-an'', ''-f'', ''null'', ''/dev/nul''],
       Run [''ffmpeg'', ''-i'', ''in.mp4'', ''-c:v'', ''libx264'', ''-b:v'', ''1127219'',
            ''-pass'', ''2'', ''-c:a'', ''aac'', ''-b:a'', ''128k'', ''out.mp4''],
       Message (operation_failed ''Second pass failed''),
       Remove ''ffmpeg2pass-0.log'', Remove ''ffmpeg2pass-0.log.mbtree''], None)
   \<and> ImageToVideoPage_create_video (\<lambda>cmd. True) (\<lambda>listing. listing) (\<lambda>pathname. [])
      (init_variables\<lparr>images_dir := ''pics'', output_video := ''out.mp4''\<rparr>)
      [(''a.png'', 1 :: nat)]
   = ([(''a.png'', 1)],
      [Copy ''pics/a.png'' ''pics/img-01.jpg'',
       Run (image_cmd (init_variables\<lparr>images_dir := ''pics'', output_video := ''out.mp4''\<rparr>)),
       Message (operation_success ''Image to video conversion completed successfully.''),
       Remove ''pics/img-01.jpg''], None)"
proof -
  let ?run = "\<lambda>cmd :: string list. cmd ! 1 = ''-y''"
  let ?w = "init_variables\<lparr>input_video := ''in.mp4'', output_video := ''out.mp4'',
                             video_duration := 60\<rparr>"
  let ?w' = "init_variables\<lparr>images_dir := ''pics'', output_video := ''out.mp4''\<rparr>"
  let ?d = "[(''a.png'', 1 :: nat)]"
  let ?d1 = "[(''a.png'', 1 :: nat), (''img-01.jpg'', 1)]"
  let ?evs = "[Copy ''pics/a.png'' ''pics/img-01.jpg'']"
  let ?scan = "\<lambda>listing :: string list. listing"
  let ?out = "\<lambda>pathname :: string. [] :: string list"
  have 1: "lower (suffix (input_video ?w)) \<in> set VIDEO_EXTENSIONS" by code_simp
  have 2: "lower (suffix (output_video ?w)) \<in> set VIDEO_EXTENSIONS" by code_simp
  have 3: "video_bitrate (video_duration ?w) = Inr 1127219"
    by (simp add: init_variables_def video_bitrate_def target_size_bytes_def audio_bitrate_def
        py_int_def)
  have 4: "?run (first_pass_cmd ''posix'' ?w 1127219)"
    by (simp add: first_pass_cmd_def)
  have 5: "lower (suffix (output_video ?w')) \<in> set VIDEO_EXTENSIONS" by code_simp
  have 6: "fix_naming ?w' ?d = (?d1, ?evs, None)" by code_simp
  have 7: "glob ?scan ?out (path_join (images_dir ?w') ''img-??.jpg'') ?d1 = [''pics/img-01.jpg'']"
    by code_simp
  have 8: "fold (os_remove (fst (os_path_split (path_join (images_dir ?w') ''img-??.jpg''))))
             [''pics/img-01.jpg''] ?d1 = ?d"
    by code_simp
  have 9: "\<not> ?run (second_pass_cmd ?w 1127219)"
    by (simp add: second_pass_cmd_def)
  have 10: "first_pass_cmd ''posix'' ?w 1127219 =
      [''ffmpeg'', ''-y'', ''-i'', ''in.mp4'', ''-c:v'', ''libx264'', ''-b:v'', ''1127219'',
       ''-pass'', ''1'', ''-an'', ''-f'', ''null'', ''/dev/nul'']"
    by (simp add: first_pass_cmd_def init_variables_def null_file_def str_eval)
  have 11: "second_pass_cmd ?w 1127219 =
      [''ffmpeg'', ''-i'', ''in.mp4'', ''-c:v'', ''libx264'', ''-b:v'', ''1127219'',
       ''-pass'', ''2'', ''-c:a'', ''aac'', ''-b:a'', ''128k'', ''out.mp4'']"
    by (simp add: second_pass_cmd_def init_variables_def str_eval)
  note T = cleanup_after_attempted_run [of ?w 1127219 ?run "''posix''" "\<lambda>p. True" ?w' ?d ?d1
      ?evs "\<lambda>cmd. True" ?scan ?out]
  have A: "Compress10MBPage_create_video ?run (\<lambda>p. True) ''posix'' ?w =
         ([Run (first_pass_cmd ''posix'' ?w 1127219), Run (second_pass_cmd ?w 1127219),
           Message (if ?run (second_pass_cmd ?w 1127219)
                    then operation_success ''Compression completed successfully.''
                    else operation_failed ''Second pass failed'')]
          @ map Remove (filter (\<lambda>p. True) two_pass_logs), None)"
    using T 1 2 3 4 by blast
  have B: "ImageToVideoPage_create_video (\<lambda>cmd. True) ?scan ?out ?w' ?d =
         (fold (os_remove (fst (os_path_split (path_join (images_dir ?w') ''img-??.jpg''))))
            (glob ?scan ?out (path_join (images_dir ?w') ''img-??.jpg'') ?d1) ?d1,
          ?evs @ [Run (image_cmd ?w'),
                 Message (operation_success
                   ''Image to video conversion completed successfully.'')]
              @ map Remove (glob ?scan ?out (path_join (images_dir ?w') ''img-??.jpg'') ?d1),
          None)"
    using T 5 6 by simp
  show ?thesis
    unfolding A B 7 8 10 11 using 9 by (simp add: two_pass_logs_def)
qed

end
